theory Spec2Isabelle
  imports Complex_Main
begin

section \<open>The canvas SDXL inpaint graph builder\<close>

text \<open>
  This theory embeds \<^verbatim>\<open>buildCanvasSDXLInpaintGraph\<close>
  (\<^verbatim>\<open>features/nodes/util/graphBuilders/buildCanvasSDXLInpaintGraph.ts\<close>): the function
  that turns the UI state, the canvas init image and the canvas mask image into the
  node/edge document submitted to the backend.
\<close>

subsection \<open>JavaScript numbers\<close>

text \<open>
  A JavaScript number is an IEEE-754 double: \<^verbatim>\<open>NaN\<close>, one of the two infinities, or a
  finite value. A finite value is given by the real it denotes; the sign of zero is left
  out, since no expression of the builder tells the two zeros apart. The builder copies
  numbers, subtracts from \<open>1\<close>, doubles, and takes a minimum.

  An arithmetic operation on finite values rounds its exact result to a double. The
  rounding is the parameter \<open>rnd\<close> of the operations (and so of the builder): it maps
  the exact result to the double the operation returns, an infinity on overflow.
\<close>

datatype number = NaN | NegInfinity | Finite real | Infinity

text \<open>\<^verbatim>\<open>a <= b\<close>: false as soon as one side is \<^verbatim>\<open>NaN\<close>.\<close>

fun jsLe :: "number \<Rightarrow> number \<Rightarrow> bool" where
  "jsLe NaN _ = False"
| "jsLe _ NaN = False"
| "jsLe NegInfinity _ = True"
| "jsLe _ Infinity = True"
| "jsLe (Finite x) (Finite y) = (x \<le> y)"
| "jsLe (Finite x) NegInfinity = False"
| "jsLe Infinity (Finite y) = False"
| "jsLe Infinity NegInfinity = False"

text \<open>\<^verbatim>\<open>Math.min(a, b)\<close>: \<^verbatim>\<open>NaN\<close> as soon as one argument is \<^verbatim>\<open>NaN\<close>.\<close>

definition jsMin :: "number \<Rightarrow> number \<Rightarrow> number" where
  "jsMin a b = (if a = NaN \<or> b = NaN then NaN else if jsLe a b then a else b)"

text \<open>\<^verbatim>\<open>a - b\<close>\<close>

fun jsSub :: "(real \<Rightarrow> number) \<Rightarrow> number \<Rightarrow> number \<Rightarrow> number" where
  "jsSub rnd NaN _ = NaN"
| "jsSub rnd _ NaN = NaN"
| "jsSub rnd (Finite x) (Finite y) = rnd (x - y)"
| "jsSub rnd Infinity Infinity = NaN"
| "jsSub rnd NegInfinity NegInfinity = NaN"
| "jsSub rnd Infinity _ = Infinity"
| "jsSub rnd NegInfinity _ = NegInfinity"
| "jsSub rnd (Finite x) Infinity = NegInfinity"
| "jsSub rnd (Finite x) NegInfinity = Infinity"

text \<open>\<^verbatim>\<open>a * b\<close>: an infinity times zero is \<^verbatim>\<open>NaN\<close>.\<close>

definition signedInfinity :: "bool \<Rightarrow> number" where
  "signedInfinity positive = (if positive then Infinity else NegInfinity)"

fun jsMul :: "(real \<Rightarrow> number) \<Rightarrow> number \<Rightarrow> number \<Rightarrow> number" where
  "jsMul rnd NaN _ = NaN"
| "jsMul rnd _ NaN = NaN"
| "jsMul rnd (Finite x) (Finite y) = rnd (x * y)"
| "jsMul rnd (Finite x) Infinity = (if x = 0 then NaN else signedInfinity (0 < x))"
| "jsMul rnd (Finite x) NegInfinity = (if x = 0 then NaN else signedInfinity (x < 0))"
| "jsMul rnd Infinity (Finite y) = (if y = 0 then NaN else signedInfinity (0 < y))"
| "jsMul rnd NegInfinity (Finite y) = (if y = 0 then NaN else signedInfinity (y < 0))"
| "jsMul rnd Infinity Infinity = Infinity"
| "jsMul rnd NegInfinity NegInfinity = Infinity"
| "jsMul rnd Infinity NegInfinity = NegInfinity"
| "jsMul rnd NegInfinity Infinity = NegInfinity"

subsection \<open>Identifiers\<close>

text \<open>
  Modelled from the spec: the module \<^verbatim>\<open>./constants\<close>, from which the builder imports its
  node ids and its graph id, is not part of the sources. The spec's data model asks that
  node ids be unique within the document, so each imported name is kept as a symbolic
  identifier of its own; \<open>OtherId\<close> stands for every other id string (those the helper
  modules use).
\<close>

datatype ident =
    CANVAS_COHERENCE_DENOISE_LATENTS
  | CANVAS_COHERENCE_INPAINT_CREATE_MASK
  | CANVAS_COHERENCE_MASK_EDGE
  | CANVAS_COHERENCE_NOISE
  | CANVAS_COHERENCE_NOISE_INCREMENT
  | CANVAS_OUTPUT
  | INPAINT_CREATE_MASK
  | INPAINT_IMAGE
  | INPAINT_IMAGE_RESIZE_DOWN
  | INPAINT_IMAGE_RESIZE_UP
  | ITERATE
  | LATENTS_TO_IMAGE
  | MASK_BLUR
  | MASK_RESIZE_DOWN
  | MASK_RESIZE_UP
  | NEGATIVE_CONDITIONING
  | NOISE
  | POSITIVE_CONDITIONING
  | RANDOM_INT
  | RANGE_OF_SIZE
  | SDXL_CANVAS_INPAINT_GRAPH
  | SDXL_DENOISE_LATENTS
  | SDXL_MODEL_LOADER
  | SDXL_REFINER_SEAMLESS
  | SEAMLESS
  | OtherId string

subsection \<open>The UI state\<close>

text \<open>
  The types \<^verbatim>\<open>RootState\<close>, \<^verbatim>\<open>ImageDTO\<close> and the model parameter are declared outside
  the sources. The records below hold the fields the builder reads; \<open>RootState\<close> is used
  as an extensible record, so that the rest of the store (what only the helpers read) is
  its extension.
\<close>

datatype ImageDTO = ImageDTO (image_name: string)

datatype MainModelParam = MainModelParam (model_name: string) (base_model: string)

record GenerationState =
  positivePrompt :: string
  negativePrompt :: string
  model :: "MainModelParam option"
  cfgScale :: number
  scheduler :: string
  steps :: number
  iterations :: number
  seed :: number
  shouldRandomizeSeed :: bool
  vaePrecision :: string
  shouldUseNoiseSettings :: bool
  shouldUseCpuNoise :: bool
  maskBlur :: number
  maskBlurMethod :: string
  canvasCoherenceMode :: string
  canvasCoherenceSteps :: number
  canvasCoherenceStrength :: number
  seamlessXAxis :: bool
  seamlessYAxis :: bool

record SDXLState =
  sdxlImg2ImgDenoisingStrength :: number
  shouldUseSDXLRefiner :: bool
  refinerStart :: number
  shouldConcatSDXLStylePrompt :: bool

record Dimensions =
  width :: number
  height :: number

record CanvasState =
  boundingBoxDimensions :: Dimensions
  scaledBoundingBoxDimensions :: Dimensions
  boundingBoxScaleMethod :: string

record SystemState =
  shouldUseNSFWChecker :: bool
  shouldUseWatermarker :: bool

record RootState =
  generation :: GenerationState
  sdxl :: SDXLState
  canvas :: CanvasState
  system :: SystemState

subsection \<open>The graph document\<close>

text \<open>
  A node is a JavaScript object: a finite map from field names to values. The \<^verbatim>\<open>id\<close>
  and \<^verbatim>\<open>type\<close> of a node are two of its fields. The nodes of a graph are a map from
  node id to node, its edges a list.
\<close>

datatype fieldval =
    JBool bool
  | JNum number
  | JStr string
  | JId ident
  | JImage ImageDTO
  | JModel MainModelParam

type_synonym invocation = "string \<rightharpoonup> fieldval"

record endpoint =
  node_id :: ident
  field :: string

record edge =
  source :: endpoint
  destination :: endpoint

record NonNullableGraph =
  graph_id :: ident
  nodes :: "ident \<rightharpoonup> invocation"
  edges :: "edge list"

datatype error = NoModelFound | TypeError

definition mkEdge :: "ident \<Rightarrow> string \<Rightarrow> ident \<Rightarrow> string \<Rightarrow> edge" where
  "mkEdge a f b t =
     \<lparr>source = \<lparr>node_id = a, field = f\<rparr>, destination = \<lparr>node_id = b, field = t\<rparr>\<rparr>"

text \<open>\<^verbatim>\<open>graph.nodes[k] = n\<close>\<close>

definition addNode :: "ident \<Rightarrow> invocation \<Rightarrow> NonNullableGraph \<Rightarrow> NonNullableGraph" where
  "addNode k n g = g\<lparr>nodes := (nodes g)(k \<mapsto> n)\<rparr>"

text \<open>
  \<^verbatim>\<open>graph.nodes[k].f = v\<close>: a property write on the object stored under \<open>k\<close>. When
  nothing is stored there, JavaScript raises a \<^verbatim>\<open>TypeError\<close>.
\<close>

definition assign ::
  "ident \<Rightarrow> string \<Rightarrow> fieldval \<Rightarrow> NonNullableGraph \<Rightarrow> error + NonNullableGraph" where
  "assign k f v g =
     (case nodes g k of
        None \<Rightarrow> Inl TypeError
      | Some n \<Rightarrow> Inr (g\<lparr>nodes := (nodes g)(k \<mapsto> n(f \<mapsto> v))\<rparr>))"

text \<open>
  \<^verbatim>\<open>graph.nodes[k] = { ...graph.nodes[k], f: v }\<close>: spreading \<^verbatim>\<open>undefined\<close> copies no
  field and does not raise.
\<close>

definition spread :: "ident \<Rightarrow> string \<Rightarrow> fieldval \<Rightarrow> NonNullableGraph \<Rightarrow> NonNullableGraph" where
  "spread k f v g =
     g\<lparr>nodes := (nodes g)(k \<mapsto> (case nodes g k of None \<Rightarrow> Map.empty | Some n \<Rightarrow> n)(f \<mapsto> v))\<rparr>"

text \<open>\<^verbatim>\<open>graph.edges.push(...)\<close>\<close>

definition push :: "edge list \<Rightarrow> NonNullableGraph \<Rightarrow> NonNullableGraph" where
  "push es g = g\<lparr>edges := edges g @ es\<rparr>"

definition bindE :: "error + 'a \<Rightarrow> ('a \<Rightarrow> error + 'b) \<Rightarrow> error + 'b" where
  "bindE m f = (case m of Inl e \<Rightarrow> Inl e | Inr x \<Rightarrow> f x)"

subsection \<open>The helper modules\<close>

text \<open>
  Modelled from the spec: the helpers the builder calls (\<^verbatim>\<open>craftSDXLStylePrompt\<close>,
  \<^verbatim>\<open>addSeamlessToLinearGraph\<close>, \<^verbatim>\<open>addSDXLRefinerToGraph\<close>, \<^verbatim>\<open>addVAEToGraph\<close>,
  \<^verbatim>\<open>addSDXLLoRAsToGraph\<close>, \<^verbatim>\<open>addControlNetToLinearGraph\<close>,
  \<^verbatim>\<open>addNSFWCheckerToGraph\<close>, \<^verbatim>\<open>addWatermarkerToGraph\<close>, \<^verbatim>\<open>addSaveImageNode\<close>) are not
  part of the sources. They are parameters of the model. The spec names the model guard
  as the only explicit failure path, so a helper is a total function; the ones that mutate
  \<^verbatim>\<open>graph\<close> in place take the graph and return the new one. What a helper does to the graph
  is left open: every theorem below says what it asks of them.
\<close>

record 'r helpers =
  craftSDXLStylePrompt :: "'r RootState_scheme \<Rightarrow> bool \<Rightarrow> string \<times> string"
  addSeamlessToLinearGraph ::
    "'r RootState_scheme \<Rightarrow> NonNullableGraph \<Rightarrow> ident \<Rightarrow> NonNullableGraph"
  addSDXLRefinerToGraph ::
    "'r RootState_scheme \<Rightarrow> NonNullableGraph \<Rightarrow> ident \<Rightarrow> ident \<Rightarrow> ImageDTO \<Rightarrow> NonNullableGraph"
  addVAEToGraph ::
    "'r RootState_scheme \<Rightarrow> NonNullableGraph \<Rightarrow> ident \<Rightarrow> NonNullableGraph"
  addSDXLLoRAsToGraph ::
    "'r RootState_scheme \<Rightarrow> NonNullableGraph \<Rightarrow> ident \<Rightarrow> ident \<Rightarrow> NonNullableGraph"
  addControlNetToLinearGraph ::
    "'r RootState_scheme \<Rightarrow> NonNullableGraph \<Rightarrow> ident \<Rightarrow> NonNullableGraph"
  addNSFWCheckerToGraph ::
    "'r RootState_scheme \<Rightarrow> NonNullableGraph \<Rightarrow> ident \<Rightarrow> NonNullableGraph"
  addWatermarkerToGraph ::
    "'r RootState_scheme \<Rightarrow> NonNullableGraph \<Rightarrow> ident \<Rightarrow> NonNullableGraph"
  addSaveImageNode ::
    "'r RootState_scheme \<Rightarrow> NonNullableGraph \<Rightarrow> NonNullableGraph"

subsection \<open>The builder\<close>

definition fp32 :: "'r RootState_scheme \<Rightarrow> bool" where
  "fp32 state = (vaePrecision (generation state) = ''fp32'')"

definition is_intermediate :: bool where
  "is_intermediate = True"

definition isUsingScaledDimensions :: "'r RootState_scheme \<Rightarrow> bool" where
  "isUsingScaledDimensions state =
     (boundingBoxScaleMethod (canvas state) \<in> set [''auto'', ''manual''])"

definition use_cpu :: "'r RootState_scheme \<Rightarrow> bool" where
  "use_cpu state =
     (if shouldUseNoiseSettings (generation state)
      then shouldUseCpuNoise (generation state)
      else shouldUseCpuNoise (generation state))"

text \<open>The object literal of lines 116 to 440: fifteen nodes and twenty-one edges.\<close>

definition initialNodes ::
  "(real \<Rightarrow> number) \<Rightarrow> 'r helpers \<Rightarrow> 'r RootState_scheme \<Rightarrow> ImageDTO \<Rightarrow> MainModelParam
     \<Rightarrow> ident \<rightharpoonup> invocation" where
  "initialNodes rnd H state canvasInitImage m =
    (let gen = generation state;
         strength = sdxlImg2ImgDenoisingStrength (sdxl state);
         modelLoaderNodeId = SDXL_MODEL_LOADER;
         crafted = craftSDXLStylePrompt H state (shouldConcatSDXLStylePrompt (sdxl state))
     in
     [ modelLoaderNodeId \<mapsto>
         [''type'' \<mapsto> JStr ''sdxl_model_loader'', ''id'' \<mapsto> JId modelLoaderNodeId,
          ''model'' \<mapsto> JModel m],
       POSITIVE_CONDITIONING \<mapsto>
         [''type'' \<mapsto> JStr ''sdxl_compel_prompt'', ''id'' \<mapsto> JId POSITIVE_CONDITIONING,
          ''prompt'' \<mapsto> JStr (positivePrompt gen), ''style'' \<mapsto> JStr (fst crafted)],
       NEGATIVE_CONDITIONING \<mapsto>
         [''type'' \<mapsto> JStr ''sdxl_compel_prompt'', ''id'' \<mapsto> JId NEGATIVE_CONDITIONING,
          ''prompt'' \<mapsto> JStr (negativePrompt gen), ''style'' \<mapsto> JStr (snd crafted)],
       MASK_BLUR \<mapsto>
         [''type'' \<mapsto> JStr ''img_blur'', ''id'' \<mapsto> JId MASK_BLUR,
          ''is_intermediate'' \<mapsto> JBool is_intermediate,
          ''radius'' \<mapsto> JNum (maskBlur gen), ''blur_type'' \<mapsto> JStr (maskBlurMethod gen)],
       INPAINT_IMAGE \<mapsto>
         [''type'' \<mapsto> JStr ''i2l'', ''id'' \<mapsto> JId INPAINT_IMAGE,
          ''is_intermediate'' \<mapsto> JBool is_intermediate, ''fp32'' \<mapsto> JBool (fp32 state)],
       NOISE \<mapsto>
         [''type'' \<mapsto> JStr ''noise'', ''id'' \<mapsto> JId NOISE,
          ''use_cpu'' \<mapsto> JBool (use_cpu state),
          ''is_intermediate'' \<mapsto> JBool is_intermediate],
       INPAINT_CREATE_MASK \<mapsto>
         [''type'' \<mapsto> JStr ''create_denoise_mask'', ''id'' \<mapsto> JId INPAINT_CREATE_MASK,
          ''is_intermediate'' \<mapsto> JBool is_intermediate, ''fp32'' \<mapsto> JBool (fp32 state)],
       SDXL_DENOISE_LATENTS \<mapsto>
         [''type'' \<mapsto> JStr ''denoise_latents'', ''id'' \<mapsto> JId SDXL_DENOISE_LATENTS,
          ''is_intermediate'' \<mapsto> JBool is_intermediate,
          ''steps'' \<mapsto> JNum (steps gen),
          ''cfg_scale'' \<mapsto> JNum (cfgScale gen),
          ''scheduler'' \<mapsto> JStr (scheduler gen),
          ''denoising_start'' \<mapsto>
             JNum (if shouldUseSDXLRefiner (sdxl state)
                   then jsMin (refinerStart (sdxl state)) (jsSub rnd (Finite 1) strength)
                   else jsSub rnd (Finite 1) strength),
          ''denoising_end'' \<mapsto>
             JNum (if shouldUseSDXLRefiner (sdxl state)
                   then refinerStart (sdxl state) else Finite 1)],
       CANVAS_COHERENCE_NOISE \<mapsto>
         [''type'' \<mapsto> JStr ''noise'', ''id'' \<mapsto> JId NOISE,
          ''use_cpu'' \<mapsto> JBool (use_cpu state),
          ''is_intermediate'' \<mapsto> JBool is_intermediate],
       CANVAS_COHERENCE_NOISE_INCREMENT \<mapsto>
         [''type'' \<mapsto> JStr ''add'', ''id'' \<mapsto> JId CANVAS_COHERENCE_NOISE_INCREMENT,
          ''b'' \<mapsto> JNum (Finite 1), ''is_intermediate'' \<mapsto> JBool is_intermediate],
       CANVAS_COHERENCE_DENOISE_LATENTS \<mapsto>
         [''type'' \<mapsto> JStr ''denoise_latents'',
          ''id'' \<mapsto> JId CANVAS_COHERENCE_DENOISE_LATENTS,
          ''is_intermediate'' \<mapsto> JBool is_intermediate,
          ''steps'' \<mapsto> JNum (canvasCoherenceSteps gen),
          ''cfg_scale'' \<mapsto> JNum (cfgScale gen),
          ''scheduler'' \<mapsto> JStr (scheduler gen),
          ''denoising_start'' \<mapsto> JNum (jsSub rnd (Finite 1) (canvasCoherenceStrength gen)),
          ''denoising_end'' \<mapsto> JNum (Finite 1)],
       LATENTS_TO_IMAGE \<mapsto>
         [''type'' \<mapsto> JStr ''l2i'', ''id'' \<mapsto> JId LATENTS_TO_IMAGE,
          ''is_intermediate'' \<mapsto> JBool is_intermediate, ''fp32'' \<mapsto> JBool (fp32 state)],
       CANVAS_OUTPUT \<mapsto>
         [''type'' \<mapsto> JStr ''color_correct'', ''id'' \<mapsto> JId CANVAS_OUTPUT,
          ''is_intermediate'' \<mapsto> JBool is_intermediate,
          ''reference'' \<mapsto> JImage canvasInitImage],
       RANGE_OF_SIZE \<mapsto>
         [''type'' \<mapsto> JStr ''range_of_size'', ''id'' \<mapsto> JId RANGE_OF_SIZE,
          ''is_intermediate'' \<mapsto> JBool is_intermediate,
          ''size'' \<mapsto> JNum (iterations gen), ''step'' \<mapsto> JNum (Finite 1)],
       ITERATE \<mapsto>
         [''type'' \<mapsto> JStr ''iterate'', ''id'' \<mapsto> JId ITERATE,
          ''is_intermediate'' \<mapsto> JBool is_intermediate] ])"

definition initialEdges :: "edge list" where
  "initialEdges =
    (let modelLoaderNodeId = SDXL_MODEL_LOADER in
     [ mkEdge modelLoaderNodeId ''unet'' SDXL_DENOISE_LATENTS ''unet'',
       mkEdge modelLoaderNodeId ''clip'' POSITIVE_CONDITIONING ''clip'',
       mkEdge modelLoaderNodeId ''clip2'' POSITIVE_CONDITIONING ''clip2'',
       mkEdge modelLoaderNodeId ''clip'' NEGATIVE_CONDITIONING ''clip'',
       mkEdge modelLoaderNodeId ''clip2'' NEGATIVE_CONDITIONING ''clip2'',
       mkEdge POSITIVE_CONDITIONING ''conditioning'' SDXL_DENOISE_LATENTS ''positive_conditioning'',
       mkEdge NEGATIVE_CONDITIONING ''conditioning'' SDXL_DENOISE_LATENTS ''negative_conditioning'',
       mkEdge NOISE ''noise'' SDXL_DENOISE_LATENTS ''noise'',
       mkEdge INPAINT_IMAGE ''latents'' SDXL_DENOISE_LATENTS ''latents'',
       mkEdge MASK_BLUR ''image'' INPAINT_CREATE_MASK ''mask'',
       mkEdge INPAINT_CREATE_MASK ''denoise_mask'' SDXL_DENOISE_LATENTS ''denoise_mask'',
       mkEdge RANGE_OF_SIZE ''collection'' ITERATE ''collection'',
       mkEdge ITERATE ''item'' NOISE ''seed'',
       mkEdge ITERATE ''item'' CANVAS_COHERENCE_NOISE_INCREMENT ''a'',
       mkEdge CANVAS_COHERENCE_NOISE_INCREMENT ''value'' CANVAS_COHERENCE_NOISE ''seed'',
       mkEdge modelLoaderNodeId ''unet'' CANVAS_COHERENCE_DENOISE_LATENTS ''unet'',
       mkEdge POSITIVE_CONDITIONING ''conditioning''
         CANVAS_COHERENCE_DENOISE_LATENTS ''positive_conditioning'',
       mkEdge NEGATIVE_CONDITIONING ''conditioning''
         CANVAS_COHERENCE_DENOISE_LATENTS ''negative_conditioning'',
       mkEdge CANVAS_COHERENCE_NOISE ''noise'' CANVAS_COHERENCE_DENOISE_LATENTS ''noise'',
       mkEdge SDXL_DENOISE_LATENTS ''latents'' CANVAS_COHERENCE_DENOISE_LATENTS ''latents'',
       mkEdge CANVAS_COHERENCE_DENOISE_LATENTS ''latents'' LATENTS_TO_IMAGE ''latents'' ])"

definition initialGraph ::
  "(real \<Rightarrow> number) \<Rightarrow> 'r helpers \<Rightarrow> 'r RootState_scheme \<Rightarrow> ImageDTO \<Rightarrow> MainModelParam
     \<Rightarrow> NonNullableGraph" where
  "initialGraph rnd H state canvasInitImage m =
     \<lparr>graph_id = SDXL_CANVAS_INPAINT_GRAPH,
      nodes = initialNodes rnd H state canvasInitImage m,
      edges = initialEdges\<rparr>"

text \<open>``Handle Scale Before Processing'', lines 442 to 604.\<close>

definition handleScaleBeforeProcessing ::
  "'r RootState_scheme \<Rightarrow> ImageDTO \<Rightarrow> ImageDTO \<Rightarrow> NonNullableGraph
     \<Rightarrow> error + NonNullableGraph" where
  "handleScaleBeforeProcessing state canvasInitImage canvasMaskImage graph =
    (let bb = boundingBoxDimensions (canvas state) in
     if isUsingScaledDimensions state then
       (let scaledWidth = width (scaledBoundingBoxDimensions (canvas state));
            scaledHeight = height (scaledBoundingBoxDimensions (canvas state));
            g1 = addNode INPAINT_IMAGE_RESIZE_UP
                   [''type'' \<mapsto> JStr ''img_resize'', ''id'' \<mapsto> JId INPAINT_IMAGE_RESIZE_UP,
                    ''is_intermediate'' \<mapsto> JBool is_intermediate,
                    ''width'' \<mapsto> JNum scaledWidth, ''height'' \<mapsto> JNum scaledHeight,
                    ''image'' \<mapsto> JImage canvasInitImage] graph;
            g2 = addNode MASK_RESIZE_UP
                   [''type'' \<mapsto> JStr ''img_resize'', ''id'' \<mapsto> JId MASK_RESIZE_UP,
                    ''is_intermediate'' \<mapsto> JBool is_intermediate,
                    ''width'' \<mapsto> JNum scaledWidth, ''height'' \<mapsto> JNum scaledHeight,
                    ''image'' \<mapsto> JImage canvasMaskImage] g1;
            g3 = addNode INPAINT_IMAGE_RESIZE_DOWN
                   [''type'' \<mapsto> JStr ''img_resize'', ''id'' \<mapsto> JId INPAINT_IMAGE_RESIZE_DOWN,
                    ''is_intermediate'' \<mapsto> JBool is_intermediate,
                    ''width'' \<mapsto> JNum (width bb), ''height'' \<mapsto> JNum (height bb)] g2;
            g4 = addNode MASK_RESIZE_DOWN
                   [''type'' \<mapsto> JStr ''img_resize'', ''id'' \<mapsto> JId MASK_RESIZE_DOWN,
                    ''is_intermediate'' \<mapsto> JBool is_intermediate,
                    ''width'' \<mapsto> JNum (width bb), ''height'' \<mapsto> JNum (height bb)] g3
        in
        bindE (assign NOISE ''width'' (JNum scaledWidth) g4) (\<lambda>g5.
        bindE (assign NOISE ''height'' (JNum scaledHeight) g5) (\<lambda>g6.
        bindE (assign CANVAS_COHERENCE_NOISE ''width'' (JNum scaledWidth) g6) (\<lambda>g7.
        bindE (assign CANVAS_COHERENCE_NOISE ''height'' (JNum scaledHeight) g7) (\<lambda>g8.
        Inr (push
          [ mkEdge INPAINT_IMAGE_RESIZE_UP ''image'' INPAINT_IMAGE ''image'',
            mkEdge MASK_RESIZE_UP ''image'' MASK_BLUR ''image'',
            mkEdge INPAINT_IMAGE_RESIZE_UP ''image'' INPAINT_CREATE_MASK ''image'',
            mkEdge LATENTS_TO_IMAGE ''image'' INPAINT_IMAGE_RESIZE_DOWN ''image'',
            mkEdge INPAINT_IMAGE_RESIZE_DOWN ''image'' CANVAS_OUTPUT ''image'',
            mkEdge MASK_BLUR ''image'' MASK_RESIZE_DOWN ''image'',
            mkEdge MASK_RESIZE_DOWN ''image'' CANVAS_OUTPUT ''mask'' ] g8))))))
     else
        bindE (assign NOISE ''width'' (JNum (width bb)) graph) (\<lambda>g1.
        bindE (assign NOISE ''height'' (JNum (height bb)) g1) (\<lambda>g2.
        bindE (assign CANVAS_COHERENCE_NOISE ''width'' (JNum (width bb)) g2) (\<lambda>g3.
        bindE (assign CANVAS_COHERENCE_NOISE ''height'' (JNum (height bb)) g3) (\<lambda>g4.
        Inr (push
          [ mkEdge LATENTS_TO_IMAGE ''image'' CANVAS_OUTPUT ''image'',
            mkEdge MASK_BLUR ''image'' CANVAS_OUTPUT ''mask'' ]
          (spread INPAINT_CREATE_MASK ''image'' (JImage canvasInitImage)
            (spread MASK_BLUR ''image'' (JImage canvasMaskImage)
              (spread INPAINT_IMAGE ''image'' (JImage canvasInitImage) g4)))))))))"

text \<open>``Handle Coherence Mode'', lines 606 to 714.\<close>

definition handleCoherenceMode ::
  "(real \<Rightarrow> number) \<Rightarrow> 'r RootState_scheme \<Rightarrow> ImageDTO \<Rightarrow> ImageDTO \<Rightarrow> NonNullableGraph
     \<Rightarrow> NonNullableGraph" where
  "handleCoherenceMode rnd state canvasInitImage canvasMaskImage graph =
    (let gen = generation state in
     if canvasCoherenceMode gen \<noteq> ''unmasked'' then
       (let g1 = addNode CANVAS_COHERENCE_INPAINT_CREATE_MASK
                   [''type'' \<mapsto> JStr ''create_denoise_mask'',
                    ''id'' \<mapsto> JId CANVAS_COHERENCE_INPAINT_CREATE_MASK,
                    ''is_intermediate'' \<mapsto> JBool is_intermediate,
                    ''fp32'' \<mapsto> JBool (fp32 state)] graph;
            g2 = (if isUsingScaledDimensions state
                  then push [mkEdge INPAINT_IMAGE_RESIZE_UP ''image''
                               CANVAS_COHERENCE_INPAINT_CREATE_MASK ''image''] g1
                  else spread CANVAS_COHERENCE_INPAINT_CREATE_MASK ''image''
                         (JImage canvasInitImage) g1);
            g3 = (if canvasCoherenceMode gen = ''mask''
                  then (if isUsingScaledDimensions state
                        then push [mkEdge MASK_RESIZE_UP ''image''
                                     CANVAS_COHERENCE_INPAINT_CREATE_MASK ''mask''] g2
                        else spread CANVAS_COHERENCE_INPAINT_CREATE_MASK ''mask''
                               (JImage canvasMaskImage) g2)
                  else g2);
            g4 = (if canvasCoherenceMode gen = ''edge''
                  then
                    (let e1 = addNode CANVAS_COHERENCE_MASK_EDGE
                                [''type'' \<mapsto> JStr ''mask_edge'',
                                 ''id'' \<mapsto> JId CANVAS_COHERENCE_MASK_EDGE,
                                 ''is_intermediate'' \<mapsto> JBool is_intermediate,
                                 ''edge_blur'' \<mapsto> JNum (maskBlur gen),
                                 ''edge_size'' \<mapsto> JNum (jsMul rnd (maskBlur gen) (Finite 2)),
                                 ''low_threshold'' \<mapsto> JNum (Finite 100),
                                 ''high_threshold'' \<mapsto> JNum (Finite 200)] g3;
                         e2 = (if isUsingScaledDimensions state
                               then push [mkEdge MASK_RESIZE_UP ''image''
                                            CANVAS_COHERENCE_MASK_EDGE ''image''] e1
                               else spread CANVAS_COHERENCE_MASK_EDGE ''image''
                                      (JImage canvasMaskImage) e1)
                     in push [mkEdge CANVAS_COHERENCE_MASK_EDGE ''image''
                                CANVAS_COHERENCE_INPAINT_CREATE_MASK ''mask''] e2)
                  else g3)
        in push [mkEdge CANVAS_COHERENCE_INPAINT_CREATE_MASK ''denoise_mask''
                   CANVAS_COHERENCE_DENOISE_LATENTS ''denoise_mask''] g4)
     else graph)"

text \<open>``Handle Seed'', lines 716 to 734.\<close>

definition handleSeed :: "'r RootState_scheme \<Rightarrow> NonNullableGraph \<Rightarrow> error + NonNullableGraph" where
  "handleSeed state graph =
    (if shouldRandomizeSeed (generation state) then
       (let randomIntNode = [''id'' \<mapsto> JId RANDOM_INT, ''type'' \<mapsto> JStr ''rand_int'']
        in Inr (push [mkEdge RANDOM_INT ''value'' RANGE_OF_SIZE ''start'']
                  (addNode RANDOM_INT randomIntNode graph)))
     else assign RANGE_OF_SIZE ''start'' (JNum (seed (generation state))) graph)"

text \<open>
  Lines 736 to 776: the calls of the helpers, in the order of the source. The variable
  \<^verbatim>\<open>modelLoaderNodeId\<close> is reassigned on the way and is threaded along with the graph.
\<close>

definition addOptionalStages ::
  "'r helpers \<Rightarrow> 'r RootState_scheme \<Rightarrow> ImageDTO \<Rightarrow> NonNullableGraph \<Rightarrow> NonNullableGraph" where
  "addOptionalStages H state canvasInitImage graph =
    (let seamless = (seamlessXAxis (generation state) \<or> seamlessYAxis (generation state));
         (g1, modelLoader1) =
            (if seamless
             then (addSeamlessToLinearGraph H state graph SDXL_MODEL_LOADER, SEAMLESS)
             else (graph, SDXL_MODEL_LOADER));
         (g2, modelLoader2) =
            (if shouldUseSDXLRefiner (sdxl state)
             then (addSDXLRefinerToGraph H state g1 CANVAS_COHERENCE_DENOISE_LATENTS
                     modelLoader1 canvasInitImage,
                   if seamless then SDXL_REFINER_SEAMLESS else modelLoader1)
             else (g1, modelLoader1));
         g3 = addVAEToGraph H state g2 modelLoader2;
         g4 = addSDXLLoRAsToGraph H state g3 SDXL_DENOISE_LATENTS modelLoader2;
         g5 = addControlNetToLinearGraph H state g4 SDXL_DENOISE_LATENTS;
         g6 = (if shouldUseNSFWChecker (system state)
               then addNSFWCheckerToGraph H state g5 CANVAS_OUTPUT else g5);
         g7 = (if shouldUseWatermarker (system state)
               then addWatermarkerToGraph H state g6 CANVAS_OUTPUT else g6)
     in addSaveImageNode H state g7)"

text \<open>
  The graph as it stands at line 735, when the builder's own branches are done and before
  the first helper that takes the graph is called.
\<close>

definition canvasGraph ::
  "(real \<Rightarrow> number) \<Rightarrow> 'r helpers \<Rightarrow> 'r RootState_scheme \<Rightarrow> ImageDTO \<Rightarrow> ImageDTO
     \<Rightarrow> MainModelParam \<Rightarrow> error + NonNullableGraph" where
  "canvasGraph rnd H state canvasInitImage canvasMaskImage m =
     bindE (handleScaleBeforeProcessing state canvasInitImage canvasMaskImage
              (initialGraph rnd H state canvasInitImage m))
       (\<lambda>g. handleSeed state
              (handleCoherenceMode rnd state canvasInitImage canvasMaskImage g))"

definition buildCanvasSDXLInpaintGraph ::
  "(real \<Rightarrow> number) \<Rightarrow> 'r helpers \<Rightarrow> 'r RootState_scheme \<Rightarrow> ImageDTO \<Rightarrow> ImageDTO
     \<Rightarrow> error + NonNullableGraph" where
  "buildCanvasSDXLInpaintGraph rnd H state canvasInitImage canvasMaskImage =
    (case model (generation state) of
       None \<Rightarrow> Inl NoModelFound
     | Some m \<Rightarrow>
         bindE (canvasGraph rnd H state canvasInitImage canvasMaskImage m)
           (\<lambda>g. Inr (addOptionalStages H state canvasInitImage g)))"

subsection \<open>Reading a graph\<close>

text \<open>The value of field \<open>f\<close> of the node stored under \<open>k\<close>, when both exist.\<close>

definition nodeField :: "NonNullableGraph \<Rightarrow> ident \<Rightarrow> string \<Rightarrow> fieldval option" where
  "nodeField g k f = (case nodes g k of None \<Rightarrow> None | Some n \<Rightarrow> n f)"

definition hasEdge :: "NonNullableGraph \<Rightarrow> ident \<Rightarrow> string \<Rightarrow> ident \<Rightarrow> string \<Rightarrow> bool" where
  "hasEdge g a f b t = (mkEdge a f b t \<in> set (edges g))"

text \<open>The edges as a relation on node ids, each edge directed from source to destination.\<close>

definition edgeRel :: "NonNullableGraph \<Rightarrow> (ident \<times> ident) set" where
  "edgeRel g = (\<lambda>e. (node_id (source e), node_id (destination e))) ` set (edges g)"

text \<open>No non-empty path along the edges leads from a node back to itself.\<close>

definition acyclicGraph :: "NonNullableGraph \<Rightarrow> bool" where
  "acyclicGraph g = (\<forall>n. (n, n) \<notin> (edgeRel g)\<^sup>+)"

text \<open>Both ends of every edge are keys of the nodes map.\<close>

definition edgesClosed :: "NonNullableGraph \<Rightarrow> bool" where
  "edgesClosed g =
     (\<forall>e \<in> set (edges g).
        nodes g (node_id (source e)) \<noteq> None \<and> nodes g (node_id (destination e)) \<noteq> None)"

text \<open>
  A numbering of the ids the builder uses, increasing along every edge the builder
  itself adds.
\<close>

fun topoRank :: "ident \<Rightarrow> nat" where
  "topoRank SDXL_MODEL_LOADER = 0"
| "topoRank RANDOM_INT = 0"
| "topoRank INPAINT_IMAGE_RESIZE_UP = 0"
| "topoRank MASK_RESIZE_UP = 0"
| "topoRank POSITIVE_CONDITIONING = 1"
| "topoRank NEGATIVE_CONDITIONING = 1"
| "topoRank RANGE_OF_SIZE = 1"
| "topoRank INPAINT_IMAGE = 1"
| "topoRank MASK_BLUR = 1"
| "topoRank CANVAS_COHERENCE_MASK_EDGE = 1"
| "topoRank ITERATE = 2"
| "topoRank INPAINT_CREATE_MASK = 2"
| "topoRank MASK_RESIZE_DOWN = 2"
| "topoRank CANVAS_COHERENCE_INPAINT_CREATE_MASK = 2"
| "topoRank NOISE = 3"
| "topoRank CANVAS_COHERENCE_NOISE_INCREMENT = 3"
| "topoRank CANVAS_COHERENCE_NOISE = 4"
| "topoRank SDXL_DENOISE_LATENTS = 5"
| "topoRank CANVAS_COHERENCE_DENOISE_LATENTS = 6"
| "topoRank LATENTS_TO_IMAGE = 7"
| "topoRank INPAINT_IMAGE_RESIZE_DOWN = 8"
| "topoRank CANVAS_OUTPUT = 9"
| "topoRank _ = 0"

subsection \<open>What a theorem may ask of the helpers\<close>

text \<open>
  \<open>helpersPreserve H state P\<close>: whatever graph and node ids a graph helper is called
  with, in this state, it hands back a graph with property \<open>P\<close> when it was given one.
\<close>

definition helpersPreserve ::
  "'r helpers \<Rightarrow> 'r RootState_scheme \<Rightarrow> (NonNullableGraph \<Rightarrow> bool) \<Rightarrow> bool" where
  "helpersPreserve H state P \<longleftrightarrow>
     (\<forall>g a b img. P g \<longrightarrow>
        P (addSeamlessToLinearGraph H state g a) \<and>
        P (addSDXLRefinerToGraph H state g a b img) \<and>
        P (addVAEToGraph H state g a) \<and>
        P (addSDXLLoRAsToGraph H state g a b) \<and>
        P (addControlNetToLinearGraph H state g a) \<and>
        P (addNSFWCheckerToGraph H state g a) \<and>
        P (addWatermarkerToGraph H state g a) \<and>
        P (addSaveImageNode H state g))"

text \<open>The helpers leave what is stored under each id of \<open>ks\<close> as it is.\<close>

definition helpersKeepNodes :: "'r helpers \<Rightarrow> 'r RootState_scheme \<Rightarrow> ident list \<Rightarrow> bool" where
  "helpersKeepNodes H state ks \<longleftrightarrow>
     (\<forall>k \<in> set ks. \<forall>n. helpersPreserve H state (\<lambda>g. nodes g k = n))"

text \<open>The helpers neither add nor remove an edge of \<open>es\<close>.\<close>

definition helpersKeepEdges :: "'r helpers \<Rightarrow> 'r RootState_scheme \<Rightarrow> edge list \<Rightarrow> bool" where
  "helpersKeepEdges H state es \<longleftrightarrow>
     (\<forall>e \<in> set es. \<forall>b. helpersPreserve H state (\<lambda>g. (e \<in> set (edges g)) = b))"

subsection \<open>A store and a set of helpers to run the builder on\<close>

definition exampleState :: RootState where
  "exampleState =
     \<lparr>generation =
        \<lparr>positivePrompt = ''a castle on a hill'', negativePrompt = ''blurry'',
         model = Some (MainModelParam ''sd_xl_base_1.0'' ''sdxl''),
         cfgScale = Finite 7, scheduler = ''euler'', steps = Finite 30,
         iterations = Finite 2, seed = Finite 42,
         shouldRandomizeSeed = False, vaePrecision = ''fp32'',
         shouldUseNoiseSettings = True, shouldUseCpuNoise = True,
         maskBlur = Finite 16, maskBlurMethod = ''box'', canvasCoherenceMode = ''edge'',
         canvasCoherenceSteps = Finite 20, canvasCoherenceStrength = Finite (1 / 4),
         seamlessXAxis = True, seamlessYAxis = False\<rparr>,
      sdxl =
        \<lparr>sdxlImg2ImgDenoisingStrength = Finite (3 / 4), shouldUseSDXLRefiner = True,
         refinerStart = Finite (1 / 2), shouldConcatSDXLStylePrompt = True\<rparr>,
      canvas =
        \<lparr>boundingBoxDimensions = \<lparr>width = Finite 512, height = Finite 768\<rparr>,
         scaledBoundingBoxDimensions = \<lparr>width = Finite 1024, height = Finite 1536\<rparr>,
         boundingBoxScaleMethod = ''auto''\<rparr>,
      system = \<lparr>shouldUseNSFWChecker = True, shouldUseWatermarker = True\<rparr>\<rparr>"

definition exampleInitImage :: ImageDTO where
  "exampleInitImage = ImageDTO ''init.png''"

definition exampleMaskImage :: ImageDTO where
  "exampleMaskImage = ImageDTO ''mask.png''"

text \<open>
  Helpers to instantiate the parameters with: some store a node under an id of their own,
  the refiner helper unplugs the \<^verbatim>\<open>latents\<close> output of the node it is given, the others
  return the graph as it is.
\<close>

definition exampleHelpers :: "unit helpers" where
  "exampleHelpers =
     \<lparr>craftSDXLStylePrompt =
        (\<lambda>state concat. (positivePrompt (generation state), negativePrompt (generation state))),
      addSeamlessToLinearGraph =
        (\<lambda>state g modelLoaderNodeId.
           addNode SEAMLESS [''type'' \<mapsto> JStr ''seamless'', ''id'' \<mapsto> JId SEAMLESS] g),
      addSDXLRefinerToGraph =
        (\<lambda>state g baseNodeId modelLoaderNodeId img.
           g\<lparr>edges := filter (\<lambda>e. \<not> (node_id (source e) = baseNodeId
                                       \<and> field (source e) = ''latents'')) (edges g)\<rparr>),
      addVAEToGraph = (\<lambda>state g modelLoaderNodeId. g),
      addSDXLLoRAsToGraph = (\<lambda>state g baseNodeId modelLoaderNodeId. g),
      addControlNetToLinearGraph = (\<lambda>state g baseNodeId. g),
      addNSFWCheckerToGraph =
        (\<lambda>state g nodeIdToAddTo.
           addNode (OtherId ''nsfw_checker'')
             [''type'' \<mapsto> JStr ''img_nsfw'', ''id'' \<mapsto> JId (OtherId ''nsfw_checker'')] g),
      addWatermarkerToGraph =
        (\<lambda>state g nodeIdToAddTo.
           addNode (OtherId ''invisible_watermark'')
             [''type'' \<mapsto> JStr ''img_watermark'',
              ''id'' \<mapsto> JId (OtherId ''invisible_watermark'')] g),
      addSaveImageNode =
        (\<lambda>state g.
           addNode (OtherId ''save_image'')
             [''type'' \<mapsto> JStr ''save_image'', ''id'' \<mapsto> JId (OtherId ''save_image'')] g)\<rparr>"

text \<open>A rounding to run the builder with: exact on every value of the example.\<close>

definition exactRounding :: "real \<Rightarrow> number" where
  "exactRounding x = Finite x"

text \<open>The example store with \<^verbatim>\<open>refinerStart\<close> set to \<^verbatim>\<open>NaN\<close>.\<close>

definition nanState :: RootState where
  "nanState = exampleState\<lparr>sdxl := (sdxl exampleState)\<lparr>refinerStart := NaN\<rparr>\<rparr>"

subsection \<open>What is asked of the rounding\<close>

text \<open>
  Rounding to the nearest double is monotone and leaves \<open>1\<close>, which is a double, as it
  is.
\<close>

definition roundingMonotone :: "(real \<Rightarrow> number) \<Rightarrow> bool" where
  "roundingMonotone rnd \<longleftrightarrow> (\<forall>x y. x \<le> y \<longrightarrow> jsLe (rnd x) (rnd y)) \<and> rnd 1 = Finite 1"

subsection \<open>The run of the helpers\<close>

text \<open>
  The graphs of lines 736 to 776 one after the other: the graph the builder hands to its
  first helper, then the graph after each of the eight calls in the order of the source,
  the last one being the graph the builder returns. A call that the state switches off
  leaves the graph as it is.
\<close>

definition stageTrace ::
  "'r helpers \<Rightarrow> 'r RootState_scheme \<Rightarrow> ImageDTO \<Rightarrow> NonNullableGraph \<Rightarrow> NonNullableGraph list" where
  "stageTrace H state canvasInitImage graph =
    (let seamless = (seamlessXAxis (generation state) \<or> seamlessYAxis (generation state));
         g1 = (if seamless
               then addSeamlessToLinearGraph H state graph SDXL_MODEL_LOADER else graph);
         modelLoader1 = (if seamless then SEAMLESS else SDXL_MODEL_LOADER);
         g2 = (if shouldUseSDXLRefiner (sdxl state)
               then addSDXLRefinerToGraph H state g1 CANVAS_COHERENCE_DENOISE_LATENTS
                      modelLoader1 canvasInitImage
               else g1);
         modelLoader2 = (if shouldUseSDXLRefiner (sdxl state) \<and> seamless
                         then SDXL_REFINER_SEAMLESS else modelLoader1);
         g3 = addVAEToGraph H state g2 modelLoader2;
         g4 = addSDXLLoRAsToGraph H state g3 SDXL_DENOISE_LATENTS modelLoader2;
         g5 = addControlNetToLinearGraph H state g4 SDXL_DENOISE_LATENTS;
         g6 = (if shouldUseNSFWChecker (system state)
               then addNSFWCheckerToGraph H state g5 CANVAS_OUTPUT else g5);
         g7 = (if shouldUseWatermarker (system state)
               then addWatermarkerToGraph H state g6 CANVAS_OUTPUT else g6);
         g8 = addSaveImageNode H state g7
     in [graph, g1, g2, g3, g4, g5, g6, g7, g8])"

text \<open>\<open>S\<close> holds of every two consecutive graphs of a run.\<close>

fun stepsAll :: "('a \<Rightarrow> 'a \<Rightarrow> bool) \<Rightarrow> 'a list \<Rightarrow> bool" where
  "stepsAll S (p # q # rest) = (S p q \<and> stepsAll S (q # rest))"
| "stepsAll S _ = True"

text \<open>
  What a call may do to the edges, for acyclicity: every edge of the graph \<open>q\<close> it hands
  back either was in the graph \<open>p\<close> it was given, or leads from a node to a node of higher
  rank \<open>r\<close>.
\<close>

definition addsForwardEdges ::
  "(ident \<Rightarrow> nat) \<Rightarrow> NonNullableGraph \<Rightarrow> NonNullableGraph \<Rightarrow> bool" where
  "addsForwardEdges r p q \<longleftrightarrow>
     (\<forall>e \<in> set (edges q).
        e \<in> set (edges p) \<or> r (node_id (source e)) < r (node_id (destination e)))"

text \<open>The ids under which the builder itself stores a node, in some state.\<close>

definition builderIds :: "ident list" where
  "builderIds =
     [SDXL_MODEL_LOADER, POSITIVE_CONDITIONING, NEGATIVE_CONDITIONING, MASK_BLUR,
      INPAINT_IMAGE, NOISE, INPAINT_CREATE_MASK, SDXL_DENOISE_LATENTS,
      CANVAS_COHERENCE_NOISE, CANVAS_COHERENCE_NOISE_INCREMENT,
      CANVAS_COHERENCE_DENOISE_LATENTS, LATENTS_TO_IMAGE, CANVAS_OUTPUT, RANGE_OF_SIZE,
      ITERATE, INPAINT_IMAGE_RESIZE_UP, MASK_RESIZE_UP, INPAINT_IMAGE_RESIZE_DOWN,
      MASK_RESIZE_DOWN, CANVAS_COHERENCE_INPAINT_CREATE_MASK, CANVAS_COHERENCE_MASK_EDGE,
      RANDOM_INT]"

text \<open>
  The rank \<open>r\<close> orders the builder's own nodes as \<open>topoRank\<close> does; it is free on the ids
  of the helpers.
\<close>

definition refinesRank :: "(ident \<Rightarrow> nat) \<Rightarrow> bool" where
  "refinesRank r \<longleftrightarrow>
     (\<forall>a \<in> set builderIds. \<forall>b \<in> set builderIds. topoRank a < topoRank b \<longrightarrow> r a < r b)"

text \<open>
  What a call may do, for the edges to name stored nodes: it removes no node, and every
  edge of the graph \<open>q\<close> it hands back either was in the graph \<open>p\<close> it was given, or has
  both ends stored in \<open>q\<close>.
\<close>

definition wiresStoredNodes :: "NonNullableGraph \<Rightarrow> NonNullableGraph \<Rightarrow> bool" where
  "wiresStoredNodes p q \<longleftrightarrow>
     (\<forall>x. nodes p x \<noteq> None \<longrightarrow> nodes q x \<noteq> None) \<and>
     (\<forall>e \<in> set (edges q).
        e \<in> set (edges p) \<or>
        (nodes q (node_id (source e)) \<noteq> None \<and> nodes q (node_id (destination e)) \<noteq> None))"

subsection \<open>Helpers that add a fragment\<close>

text \<open>
  Helpers to instantiate the parameters with, each adding a fragment as the spec describes
  the helper modules: a node or two under ids of its own, wired to the nodes it is handed
  or to the nodes of the builder. The seamless helper stores \<^verbatim>\<open>SEAMLESS\<close> and the
  refiner helper, when seamless tiling is on, \<^verbatim>\<open>SDXL_REFINER_SEAMLESS\<close>: the ids the
  builder hands on as the model loader after these calls.
\<close>

definition wiringHelpers :: "unit helpers" where
  "wiringHelpers =
     \<lparr>craftSDXLStylePrompt =
        (\<lambda>state concat. (positivePrompt (generation state), negativePrompt (generation state))),
      addSeamlessToLinearGraph =
        (\<lambda>state g modelLoaderNodeId.
           push [mkEdge modelLoaderNodeId ''unet'' SEAMLESS ''unet'',
                 mkEdge SEAMLESS ''unet'' SDXL_DENOISE_LATENTS ''unet'']
             (addNode SEAMLESS [''type'' \<mapsto> JStr ''seamless'', ''id'' \<mapsto> JId SEAMLESS] g)),
      addSDXLRefinerToGraph =
        (\<lambda>state g baseNodeId modelLoaderNodeId img.
           let g1 = addNode (OtherId ''sdxl_refiner_denoise_latents'')
                      [''type'' \<mapsto> JStr ''denoise_latents'',
                       ''id'' \<mapsto> JId (OtherId ''sdxl_refiner_denoise_latents'')] g;
               g2 = push [mkEdge baseNodeId ''latents''
                            (OtherId ''sdxl_refiner_denoise_latents'') ''latents''] g1
           in if seamlessXAxis (generation state) \<or> seamlessYAxis (generation state)
              then push [mkEdge SDXL_REFINER_SEAMLESS ''unet''
                           (OtherId ''sdxl_refiner_denoise_latents'') ''unet'']
                     (addNode SDXL_REFINER_SEAMLESS
                        [''type'' \<mapsto> JStr ''seamless'', ''id'' \<mapsto> JId SDXL_REFINER_SEAMLESS]
                        g2)
              else g2),
      addVAEToGraph =
        (\<lambda>state g modelLoaderNodeId.
           push [mkEdge modelLoaderNodeId ''vae'' LATENTS_TO_IMAGE ''vae''] g),
      addSDXLLoRAsToGraph = (\<lambda>state g baseNodeId modelLoaderNodeId. g),
      addControlNetToLinearGraph =
        (\<lambda>state g baseNodeId.
           push [mkEdge (OtherId ''control_net_collect'') ''collection'' baseNodeId ''control'']
             (addNode (OtherId ''control_net_collect'')
                [''type'' \<mapsto> JStr ''collect'',
                 ''id'' \<mapsto> JId (OtherId ''control_net_collect'')] g)),
      addNSFWCheckerToGraph =
        (\<lambda>state g nodeIdToAddTo.
           push [mkEdge nodeIdToAddTo ''image'' (OtherId ''nsfw_checker'') ''image'']
             (addNode (OtherId ''nsfw_checker'')
                [''type'' \<mapsto> JStr ''img_nsfw'', ''id'' \<mapsto> JId (OtherId ''nsfw_checker'')] g)),
      addWatermarkerToGraph =
        (\<lambda>state g nodeIdToAddTo.
           push [mkEdge nodeIdToAddTo ''image'' (OtherId ''invisible_watermark'') ''image'']
             (addNode (OtherId ''invisible_watermark'')
                [''type'' \<mapsto> JStr ''img_watermark'',
                 ''id'' \<mapsto> JId (OtherId ''invisible_watermark'')] g)),
      addSaveImageNode =
        (\<lambda>state g.
           push [mkEdge CANVAS_OUTPUT ''image'' (OtherId ''save_image'') ''image'']
             (addNode (OtherId ''save_image'')
                [''type'' \<mapsto> JStr ''save_image'', ''id'' \<mapsto> JId (OtherId ''save_image'')] g))\<rparr>"

text \<open>
  A rank for the graphs these helpers produce: ten times \<open>topoRank\<close> on the builder's
  nodes, which leaves room for the nodes of the helpers in between.
\<close>

fun exampleRank :: "ident \<Rightarrow> nat" where
  "exampleRank SEAMLESS = 5"
| "exampleRank SDXL_REFINER_SEAMLESS = 5"
| "exampleRank (OtherId s) =
     (if s = ''control_net_collect'' then 0
      else if s = ''sdxl_refiner_denoise_latents'' then 65
      else if s = ''nsfw_checker'' then 100
      else if s = ''invisible_watermark'' then 110
      else 120)"
| "exampleRank x = 10 * topoRank x"

section \<open>What each step of the builder does\<close>

text \<open>
  The steps are read through the two projections \<open>nodes\<close> and \<open>edges\<close>; a step
  that can raise is shown to return, and its result is named by \<open>projr\<close>.
\<close>

lemma nodes_addNode: "nodes (addNode k n g) = (nodes g)(k \<mapsto> n)"
  by (simp add: addNode_def)
lemma edges_addNode: "edges (addNode k n g) = edges g"
  by (simp add: addNode_def)
lemma nodes_push: "nodes (push es g) = nodes g"
  by (simp add: push_def)
lemma edges_push: "edges (push es g) = edges g @ es"
  by (simp add: push_def)
lemma nodes_spread:
  "nodes (spread k f v g) =
     (nodes g)(k \<mapsto> (case nodes g k of None \<Rightarrow> Map.empty | Some n \<Rightarrow> n)(f \<mapsto> v))"
  by (simp add: spread_def)
lemma edges_spread: "edges (spread k f v g) = edges g"
  by (simp add: spread_def)
lemma assign_Some:
  "nodes g k = Some n \<Longrightarrow> assign k f v g = Inr (g\<lparr>nodes := (nodes g)(k \<mapsto> n(f \<mapsto> v))\<rparr>)"
  by (simp add: assign_def)
lemma bindE_Inr: "bindE (Inr x) f = f x"
  by (simp add: bindE_def)

lemmas graph_ops = nodes_addNode edges_addNode nodes_push edges_push nodes_spread edges_spread
  assign_Some bindE_Inr

lemma scale_effect:
  assumes "nodes g NOISE = Some a" and "nodes g CANVAS_COHERENCE_NOISE = Some b"
  shows "handleScaleBeforeProcessing state i k g =
           Inr (projr (handleScaleBeforeProcessing state i k g))"
    and "edges (projr (handleScaleBeforeProcessing state i k g)) = edges g @
      (if isUsingScaledDimensions state
       then [ mkEdge INPAINT_IMAGE_RESIZE_UP ''image'' INPAINT_IMAGE ''image'',
              mkEdge MASK_RESIZE_UP ''image'' MASK_BLUR ''image'',
              mkEdge INPAINT_IMAGE_RESIZE_UP ''image'' INPAINT_CREATE_MASK ''image'',
              mkEdge LATENTS_TO_IMAGE ''image'' INPAINT_IMAGE_RESIZE_DOWN ''image'',
              mkEdge INPAINT_IMAGE_RESIZE_DOWN ''image'' CANVAS_OUTPUT ''image'',
              mkEdge MASK_BLUR ''image'' MASK_RESIZE_DOWN ''image'',
              mkEdge MASK_RESIZE_DOWN ''image'' CANVAS_OUTPUT ''mask'' ]
       else [ mkEdge LATENTS_TO_IMAGE ''image'' CANVAS_OUTPUT ''image'',
              mkEdge MASK_BLUR ''image'' CANVAS_OUTPUT ''mask'' ])"
    and "nodes (projr (handleScaleBeforeProcessing state i k g)) =
      (if isUsingScaledDimensions state
       then (nodes g)
         (INPAINT_IMAGE_RESIZE_UP \<mapsto>
            [''type'' \<mapsto> JStr ''img_resize'', ''id'' \<mapsto> JId INPAINT_IMAGE_RESIZE_UP,
             ''is_intermediate'' \<mapsto> JBool is_intermediate,
             ''width'' \<mapsto> JNum (width (scaledBoundingBoxDimensions (canvas state))),
             ''height'' \<mapsto> JNum (height (scaledBoundingBoxDimensions (canvas state))),
             ''image'' \<mapsto> JImage i],
          MASK_RESIZE_UP \<mapsto>
            [''type'' \<mapsto> JStr ''img_resize'', ''id'' \<mapsto> JId MASK_RESIZE_UP,
             ''is_intermediate'' \<mapsto> JBool is_intermediate,
             ''width'' \<mapsto> JNum (width (scaledBoundingBoxDimensions (canvas state))),
             ''height'' \<mapsto> JNum (height (scaledBoundingBoxDimensions (canvas state))),
             ''image'' \<mapsto> JImage k],
          INPAINT_IMAGE_RESIZE_DOWN \<mapsto>
            [''type'' \<mapsto> JStr ''img_resize'', ''id'' \<mapsto> JId INPAINT_IMAGE_RESIZE_DOWN,
             ''is_intermediate'' \<mapsto> JBool is_intermediate,
             ''width'' \<mapsto> JNum (width (boundingBoxDimensions (canvas state))),
             ''height'' \<mapsto> JNum (height (boundingBoxDimensions (canvas state)))],
          MASK_RESIZE_DOWN \<mapsto>
            [''type'' \<mapsto> JStr ''img_resize'', ''id'' \<mapsto> JId MASK_RESIZE_DOWN,
             ''is_intermediate'' \<mapsto> JBool is_intermediate,
             ''width'' \<mapsto> JNum (width (boundingBoxDimensions (canvas state))),
             ''height'' \<mapsto> JNum (height (boundingBoxDimensions (canvas state)))],
          NOISE \<mapsto> a
            (''width'' \<mapsto> JNum (width (scaledBoundingBoxDimensions (canvas state))),
             ''height'' \<mapsto> JNum (height (scaledBoundingBoxDimensions (canvas state)))),
          CANVAS_COHERENCE_NOISE \<mapsto> b
            (''width'' \<mapsto> JNum (width (scaledBoundingBoxDimensions (canvas state))),
             ''height'' \<mapsto> JNum (height (scaledBoundingBoxDimensions (canvas state)))))
       else (nodes g)
         (NOISE \<mapsto> a
            (''width'' \<mapsto> JNum (width (boundingBoxDimensions (canvas state))),
             ''height'' \<mapsto> JNum (height (boundingBoxDimensions (canvas state)))),
          CANVAS_COHERENCE_NOISE \<mapsto> b
            (''width'' \<mapsto> JNum (width (boundingBoxDimensions (canvas state))),
             ''height'' \<mapsto> JNum (height (boundingBoxDimensions (canvas state)))),
          INPAINT_IMAGE \<mapsto>
            (case nodes g INPAINT_IMAGE of None \<Rightarrow> Map.empty | Some n \<Rightarrow> n)
              (''image'' \<mapsto> JImage i),
          MASK_BLUR \<mapsto>
            (case nodes g MASK_BLUR of None \<Rightarrow> Map.empty | Some n \<Rightarrow> n)
              (''image'' \<mapsto> JImage k),
          INPAINT_CREATE_MASK \<mapsto>
            (case nodes g INPAINT_CREATE_MASK of None \<Rightarrow> Map.empty | Some n \<Rightarrow> n)
              (''image'' \<mapsto> JImage i)))"
  using assms
  by (simp_all add: handleScaleBeforeProcessing_def graph_ops Let_def)


lemma coherence_edges:
  "edges (handleCoherenceMode rnd state i k g) = edges g @
     (if canvasCoherenceMode (generation state) = ''unmasked'' then []
      else (if isUsingScaledDimensions state
            then [mkEdge INPAINT_IMAGE_RESIZE_UP ''image''
                    CANVAS_COHERENCE_INPAINT_CREATE_MASK ''image'']
            else []) @
           (if canvasCoherenceMode (generation state) = ''mask'' \<and> isUsingScaledDimensions state
            then [mkEdge MASK_RESIZE_UP ''image'' CANVAS_COHERENCE_INPAINT_CREATE_MASK ''mask'']
            else []) @
           (if canvasCoherenceMode (generation state) = ''edge''
            then (if isUsingScaledDimensions state
                  then [mkEdge MASK_RESIZE_UP ''image'' CANVAS_COHERENCE_MASK_EDGE ''image'']
                  else []) @
                 [mkEdge CANVAS_COHERENCE_MASK_EDGE ''image''
                    CANVAS_COHERENCE_INPAINT_CREATE_MASK ''mask'']
            else []) @
           [mkEdge CANVAS_COHERENCE_INPAINT_CREATE_MASK ''denoise_mask''
              CANVAS_COHERENCE_DENOISE_LATENTS ''denoise_mask''])"
  by (simp add: handleCoherenceMode_def graph_ops Let_def)

lemma coherence_nodes_other:
  "x \<noteq> CANVAS_COHERENCE_INPAINT_CREATE_MASK \<Longrightarrow> x \<noteq> CANVAS_COHERENCE_MASK_EDGE \<Longrightarrow>
   nodes (handleCoherenceMode rnd state i k g) x = nodes g x"
  by (simp add: handleCoherenceMode_def graph_ops Let_def)

lemma coherence_nodes_mask:
  "nodes (handleCoherenceMode rnd state i k g) CANVAS_COHERENCE_INPAINT_CREATE_MASK =
     (if canvasCoherenceMode (generation state) = ''unmasked''
      then nodes g CANVAS_COHERENCE_INPAINT_CREATE_MASK
      else Some
        (let n = [''type'' \<mapsto> JStr ''create_denoise_mask'',
                  ''id'' \<mapsto> JId CANVAS_COHERENCE_INPAINT_CREATE_MASK,
                  ''is_intermediate'' \<mapsto> JBool is_intermediate,
                  ''fp32'' \<mapsto> JBool (fp32 state)]
         in if isUsingScaledDimensions state then n
            else if canvasCoherenceMode (generation state) = ''mask''
                 then n(''image'' \<mapsto> JImage i, ''mask'' \<mapsto> JImage k)
                 else n(''image'' \<mapsto> JImage i)))"
  by (simp add: handleCoherenceMode_def graph_ops Let_def)

lemma coherence_nodes_edge:
  "nodes (handleCoherenceMode rnd state i k g) CANVAS_COHERENCE_MASK_EDGE =
     (if canvasCoherenceMode (generation state) = ''edge''
      then Some
        (let n = [''type'' \<mapsto> JStr ''mask_edge'',
                  ''id'' \<mapsto> JId CANVAS_COHERENCE_MASK_EDGE,
                  ''is_intermediate'' \<mapsto> JBool is_intermediate,
                  ''edge_blur'' \<mapsto> JNum (maskBlur (generation state)),
                  ''edge_size'' \<mapsto> JNum (jsMul rnd (maskBlur (generation state)) (Finite 2)),
                  ''low_threshold'' \<mapsto> JNum (Finite 100),
                  ''high_threshold'' \<mapsto> JNum (Finite 200)]
         in if isUsingScaledDimensions state then n else n(''image'' \<mapsto> JImage k))
      else nodes g CANVAS_COHERENCE_MASK_EDGE)"
  by (simp add: handleCoherenceMode_def graph_ops Let_def)

lemma seed_effect:
  assumes "nodes g RANGE_OF_SIZE = Some r"
  shows "handleSeed state g = Inr (projr (handleSeed state g))"
    and "edges (projr (handleSeed state g)) = edges g @
      (if shouldRandomizeSeed (generation state)
       then [mkEdge RANDOM_INT ''value'' RANGE_OF_SIZE ''start''] else [])"
    and "nodes (projr (handleSeed state g)) =
      (if shouldRandomizeSeed (generation state)
       then (nodes g)(RANDOM_INT \<mapsto> [''id'' \<mapsto> JId RANDOM_INT, ''type'' \<mapsto> JStr ''rand_int''])
       else (nodes g)(RANGE_OF_SIZE \<mapsto> r(''start'' \<mapsto> JNum (seed (generation state)))))"
  using assms by (simp_all add: handleSeed_def graph_ops Let_def)

lemma initialNodes_at:
  "initialNodes rnd H state i m NOISE =
     Some [''type'' \<mapsto> JStr ''noise'', ''id'' \<mapsto> JId NOISE,
           ''use_cpu'' \<mapsto> JBool (use_cpu state),
           ''is_intermediate'' \<mapsto> JBool is_intermediate]"
  "initialNodes rnd H state i m CANVAS_COHERENCE_NOISE =
     Some [''type'' \<mapsto> JStr ''noise'', ''id'' \<mapsto> JId NOISE,
           ''use_cpu'' \<mapsto> JBool (use_cpu state),
           ''is_intermediate'' \<mapsto> JBool is_intermediate]"
  "initialNodes rnd H state i m RANGE_OF_SIZE =
     Some [''type'' \<mapsto> JStr ''range_of_size'', ''id'' \<mapsto> JId RANGE_OF_SIZE,
           ''is_intermediate'' \<mapsto> JBool is_intermediate,
           ''size'' \<mapsto> JNum (iterations (generation state)), ''step'' \<mapsto> JNum (Finite 1)]"
  "initialNodes rnd H state i m INPAINT_IMAGE =
     Some [''type'' \<mapsto> JStr ''i2l'', ''id'' \<mapsto> JId INPAINT_IMAGE,
           ''is_intermediate'' \<mapsto> JBool is_intermediate, ''fp32'' \<mapsto> JBool (fp32 state)]"
  "initialNodes rnd H state i m MASK_BLUR =
     Some [''type'' \<mapsto> JStr ''img_blur'', ''id'' \<mapsto> JId MASK_BLUR,
           ''is_intermediate'' \<mapsto> JBool is_intermediate,
           ''radius'' \<mapsto> JNum (maskBlur (generation state)),
           ''blur_type'' \<mapsto> JStr (maskBlurMethod (generation state))]"
  "initialNodes rnd H state i m INPAINT_CREATE_MASK =
     Some [''type'' \<mapsto> JStr ''create_denoise_mask'', ''id'' \<mapsto> JId INPAINT_CREATE_MASK,
           ''is_intermediate'' \<mapsto> JBool is_intermediate, ''fp32'' \<mapsto> JBool (fp32 state)]"
  "initialNodes rnd H state i m INPAINT_IMAGE_RESIZE_UP = None"
  "initialNodes rnd H state i m MASK_RESIZE_UP = None"
  "initialNodes rnd H state i m INPAINT_IMAGE_RESIZE_DOWN = None"
  "initialNodes rnd H state i m MASK_RESIZE_DOWN = None"
  "initialNodes rnd H state i m CANVAS_COHERENCE_INPAINT_CREATE_MASK = None"
  "initialNodes rnd H state i m CANVAS_COHERENCE_MASK_EDGE = None"
  "initialNodes rnd H state i m RANDOM_INT = None"
  by (simp_all add: initialNodes_def Let_def)

lemma initialNodes_present:
  "\<exists>n. initialNodes rnd H state i m SDXL_MODEL_LOADER = Some n"
  "\<exists>n. initialNodes rnd H state i m POSITIVE_CONDITIONING = Some n"
  "\<exists>n. initialNodes rnd H state i m NEGATIVE_CONDITIONING = Some n"
  "\<exists>n. initialNodes rnd H state i m SDXL_DENOISE_LATENTS = Some n"
  "\<exists>n. initialNodes rnd H state i m CANVAS_COHERENCE_NOISE_INCREMENT = Some n"
  "\<exists>n. initialNodes rnd H state i m CANVAS_COHERENCE_DENOISE_LATENTS = Some n"
  "\<exists>n. initialNodes rnd H state i m LATENTS_TO_IMAGE = Some n"
  "\<exists>n. initialNodes rnd H state i m CANVAS_OUTPUT = Some n"
  "\<exists>n. initialNodes rnd H state i m ITERATE = Some n"
  by (simp_all add: initialNodes_def Let_def)

lemma initialNodes_denoise:
  "initialNodes rnd H state i m SDXL_DENOISE_LATENTS =
     Some [''type'' \<mapsto> JStr ''denoise_latents'', ''id'' \<mapsto> JId SDXL_DENOISE_LATENTS,
           ''is_intermediate'' \<mapsto> JBool is_intermediate,
           ''steps'' \<mapsto> JNum (steps (generation state)),
           ''cfg_scale'' \<mapsto> JNum (cfgScale (generation state)),
           ''scheduler'' \<mapsto> JStr (scheduler (generation state)),
           ''denoising_start'' \<mapsto>
              JNum (if shouldUseSDXLRefiner (sdxl state)
                    then jsMin (refinerStart (sdxl state))
                           (jsSub rnd (Finite 1) (sdxlImg2ImgDenoisingStrength (sdxl state)))
                    else jsSub rnd (Finite 1) (sdxlImg2ImgDenoisingStrength (sdxl state))),
           ''denoising_end'' \<mapsto>
              JNum (if shouldUseSDXLRefiner (sdxl state)
                    then refinerStart (sdxl state) else Finite 1)]"
  by (simp add: initialNodes_def Let_def)

lemma canvasGraph_master:
  fixes rnd :: "real \<Rightarrow> number" and H :: "'r helpers"
    and state :: "'r RootState_scheme" and i k m
  defines "c \<equiv> projr (canvasGraph rnd H state i k m)"
  defines "scaled \<equiv> isUsingScaledDimensions state"
  defines "mode \<equiv> canvasCoherenceMode (generation state)"
  defines "W \<equiv> (if isUsingScaledDimensions state
                  then width (scaledBoundingBoxDimensions (canvas state))
                  else width (boundingBoxDimensions (canvas state)))"
  defines "Ht \<equiv> (if isUsingScaledDimensions state
                  then height (scaledBoundingBoxDimensions (canvas state))
                  else height (boundingBoxDimensions (canvas state)))"
  shows cg_returns: "canvasGraph rnd H state i k m = Inr c"
    and cg_edges: "edges c = initialEdges @
      (if scaled
       then [ mkEdge INPAINT_IMAGE_RESIZE_UP ''image'' INPAINT_IMAGE ''image'',
              mkEdge MASK_RESIZE_UP ''image'' MASK_BLUR ''image'',
              mkEdge INPAINT_IMAGE_RESIZE_UP ''image'' INPAINT_CREATE_MASK ''image'',
              mkEdge LATENTS_TO_IMAGE ''image'' INPAINT_IMAGE_RESIZE_DOWN ''image'',
              mkEdge INPAINT_IMAGE_RESIZE_DOWN ''image'' CANVAS_OUTPUT ''image'',
              mkEdge MASK_BLUR ''image'' MASK_RESIZE_DOWN ''image'',
              mkEdge MASK_RESIZE_DOWN ''image'' CANVAS_OUTPUT ''mask'' ]
       else [ mkEdge LATENTS_TO_IMAGE ''image'' CANVAS_OUTPUT ''image'',
              mkEdge MASK_BLUR ''image'' CANVAS_OUTPUT ''mask'' ]) @
      (if mode = ''unmasked'' then []
       else (if scaled
             then [mkEdge INPAINT_IMAGE_RESIZE_UP ''image''
                     CANVAS_COHERENCE_INPAINT_CREATE_MASK ''image'']
             else []) @
            (if mode = ''mask'' \<and> scaled
             then [mkEdge MASK_RESIZE_UP ''image'' CANVAS_COHERENCE_INPAINT_CREATE_MASK ''mask'']
             else []) @
            (if mode = ''edge''
             then (if scaled
                   then [mkEdge MASK_RESIZE_UP ''image'' CANVAS_COHERENCE_MASK_EDGE ''image'']
                   else []) @
                  [mkEdge CANVAS_COHERENCE_MASK_EDGE ''image''
                     CANVAS_COHERENCE_INPAINT_CREATE_MASK ''mask'']
             else []) @
            [mkEdge CANVAS_COHERENCE_INPAINT_CREATE_MASK ''denoise_mask''
               CANVAS_COHERENCE_DENOISE_LATENTS ''denoise_mask'']) @
      (if shouldRandomizeSeed (generation state)
       then [mkEdge RANDOM_INT ''value'' RANGE_OF_SIZE ''start''] else [])"
    and cg_noise: "nodes c NOISE =
       Some [''type'' \<mapsto> JStr ''noise'', ''id'' \<mapsto> JId NOISE,
             ''use_cpu'' \<mapsto> JBool (use_cpu state),
             ''is_intermediate'' \<mapsto> JBool is_intermediate,
             ''width'' \<mapsto> JNum W, ''height'' \<mapsto> JNum Ht]"
    and cg_coherence_noise: "nodes c CANVAS_COHERENCE_NOISE =
       Some [''type'' \<mapsto> JStr ''noise'', ''id'' \<mapsto> JId NOISE,
             ''use_cpu'' \<mapsto> JBool (use_cpu state),
             ''is_intermediate'' \<mapsto> JBool is_intermediate,
             ''width'' \<mapsto> JNum W, ''height'' \<mapsto> JNum Ht]"
    and cg_image_resize_up: "nodes c INPAINT_IMAGE_RESIZE_UP =
       (if scaled
        then Some [''type'' \<mapsto> JStr ''img_resize'', ''id'' \<mapsto> JId INPAINT_IMAGE_RESIZE_UP,
                   ''is_intermediate'' \<mapsto> JBool is_intermediate,
                   ''width'' \<mapsto> JNum (width (scaledBoundingBoxDimensions (canvas state))),
                   ''height'' \<mapsto> JNum (height (scaledBoundingBoxDimensions (canvas state))),
                   ''image'' \<mapsto> JImage i]
        else None)"
    and cg_mask_resize_up: "nodes c MASK_RESIZE_UP =
       (if scaled
        then Some [''type'' \<mapsto> JStr ''img_resize'', ''id'' \<mapsto> JId MASK_RESIZE_UP,
                   ''is_intermediate'' \<mapsto> JBool is_intermediate,
                   ''width'' \<mapsto> JNum (width (scaledBoundingBoxDimensions (canvas state))),
                   ''height'' \<mapsto> JNum (height (scaledBoundingBoxDimensions (canvas state))),
                   ''image'' \<mapsto> JImage k]
        else None)"
    and cg_image_resize_down: "nodes c INPAINT_IMAGE_RESIZE_DOWN =
       (if scaled
        then Some [''type'' \<mapsto> JStr ''img_resize'', ''id'' \<mapsto> JId INPAINT_IMAGE_RESIZE_DOWN,
                   ''is_intermediate'' \<mapsto> JBool is_intermediate,
                   ''width'' \<mapsto> JNum (width (boundingBoxDimensions (canvas state))),
                   ''height'' \<mapsto> JNum (height (boundingBoxDimensions (canvas state)))]
        else None)"
    and cg_mask_resize_down: "nodes c MASK_RESIZE_DOWN =
       (if scaled
        then Some [''type'' \<mapsto> JStr ''img_resize'', ''id'' \<mapsto> JId MASK_RESIZE_DOWN,
                   ''is_intermediate'' \<mapsto> JBool is_intermediate,
                   ''width'' \<mapsto> JNum (width (boundingBoxDimensions (canvas state))),
                   ''height'' \<mapsto> JNum (height (boundingBoxDimensions (canvas state)))]
        else None)"
    and cg_inpaint_image: "nodes c INPAINT_IMAGE =
       (if scaled
        then Some [''type'' \<mapsto> JStr ''i2l'', ''id'' \<mapsto> JId INPAINT_IMAGE,
                   ''is_intermediate'' \<mapsto> JBool is_intermediate,
                   ''fp32'' \<mapsto> JBool (fp32 state)]
        else Some [''type'' \<mapsto> JStr ''i2l'', ''id'' \<mapsto> JId INPAINT_IMAGE,
                   ''is_intermediate'' \<mapsto> JBool is_intermediate,
                   ''fp32'' \<mapsto> JBool (fp32 state), ''image'' \<mapsto> JImage i])"
    and cg_mask_blur: "nodes c MASK_BLUR =
       (if scaled
        then Some [''type'' \<mapsto> JStr ''img_blur'', ''id'' \<mapsto> JId MASK_BLUR,
                   ''is_intermediate'' \<mapsto> JBool is_intermediate,
                   ''radius'' \<mapsto> JNum (maskBlur (generation state)),
                   ''blur_type'' \<mapsto> JStr (maskBlurMethod (generation state))]
        else Some [''type'' \<mapsto> JStr ''img_blur'', ''id'' \<mapsto> JId MASK_BLUR,
                   ''is_intermediate'' \<mapsto> JBool is_intermediate,
                   ''radius'' \<mapsto> JNum (maskBlur (generation state)),
                   ''blur_type'' \<mapsto> JStr (maskBlurMethod (generation state)),
                   ''image'' \<mapsto> JImage k])"
    and cg_inpaint_create_mask: "nodes c INPAINT_CREATE_MASK =
       (if scaled
        then Some [''type'' \<mapsto> JStr ''create_denoise_mask'', ''id'' \<mapsto> JId INPAINT_CREATE_MASK,
                   ''is_intermediate'' \<mapsto> JBool is_intermediate,
                   ''fp32'' \<mapsto> JBool (fp32 state)]
        else Some [''type'' \<mapsto> JStr ''create_denoise_mask'', ''id'' \<mapsto> JId INPAINT_CREATE_MASK,
                   ''is_intermediate'' \<mapsto> JBool is_intermediate,
                   ''fp32'' \<mapsto> JBool (fp32 state), ''image'' \<mapsto> JImage i])"
    and cg_coherence_mask: "nodes c CANVAS_COHERENCE_INPAINT_CREATE_MASK =
       (if mode = ''unmasked'' then None
        else Some
          (let n = [''type'' \<mapsto> JStr ''create_denoise_mask'',
                    ''id'' \<mapsto> JId CANVAS_COHERENCE_INPAINT_CREATE_MASK,
                    ''is_intermediate'' \<mapsto> JBool is_intermediate,
                    ''fp32'' \<mapsto> JBool (fp32 state)]
           in if scaled then n
              else if mode = ''mask''
                   then n(''image'' \<mapsto> JImage i, ''mask'' \<mapsto> JImage k)
                   else n(''image'' \<mapsto> JImage i)))"
    and cg_mask_edge: "nodes c CANVAS_COHERENCE_MASK_EDGE =
       (if mode = ''edge''
        then Some
          (let n = [''type'' \<mapsto> JStr ''mask_edge'',
                    ''id'' \<mapsto> JId CANVAS_COHERENCE_MASK_EDGE,
                    ''is_intermediate'' \<mapsto> JBool is_intermediate,
                    ''edge_blur'' \<mapsto> JNum (maskBlur (generation state)),
                    ''edge_size'' \<mapsto> JNum (jsMul rnd (maskBlur (generation state)) (Finite 2)),
                    ''low_threshold'' \<mapsto> JNum (Finite 100),
                    ''high_threshold'' \<mapsto> JNum (Finite 200)]
           in if scaled then n else n(''image'' \<mapsto> JImage k))
        else None)"
    and cg_random_int: "nodes c RANDOM_INT =
       (if shouldRandomizeSeed (generation state)
        then Some [''id'' \<mapsto> JId RANDOM_INT, ''type'' \<mapsto> JStr ''rand_int'']
        else None)"
    and cg_range_of_size: "nodes c RANGE_OF_SIZE =
       (if shouldRandomizeSeed (generation state)
        then Some [''type'' \<mapsto> JStr ''range_of_size'', ''id'' \<mapsto> JId RANGE_OF_SIZE,
                   ''is_intermediate'' \<mapsto> JBool is_intermediate,
                   ''size'' \<mapsto> JNum (iterations (generation state)), ''step'' \<mapsto> JNum (Finite 1)]
        else Some [''type'' \<mapsto> JStr ''range_of_size'', ''id'' \<mapsto> JId RANGE_OF_SIZE,
                   ''is_intermediate'' \<mapsto> JBool is_intermediate,
                   ''size'' \<mapsto> JNum (iterations (generation state)), ''step'' \<mapsto> JNum (Finite 1),
                   ''start'' \<mapsto> JNum (seed (generation state))])"
    and cg_untouched:
      "x \<in> {SDXL_MODEL_LOADER, POSITIVE_CONDITIONING, NEGATIVE_CONDITIONING,
             SDXL_DENOISE_LATENTS, CANVAS_COHERENCE_NOISE_INCREMENT,
             CANVAS_COHERENCE_DENOISE_LATENTS, LATENTS_TO_IMAGE, CANVAS_OUTPUT, ITERATE}
       \<Longrightarrow> nodes c x = initialNodes rnd H state i m x"
proof -
  let ?g0 = "initialGraph rnd H state i m"
  let ?g1 = "projr (handleScaleBeforeProcessing state i k ?g0)"
  let ?g2 = "handleCoherenceMode rnd state i k ?g1"
  let ?g3 = "projr (handleSeed state ?g2)"
  have n0: "nodes ?g0 = initialNodes rnd H state i m" and e0: "edges ?g0 = initialEdges"
    by (simp_all add: initialGraph_def)
  have a: "nodes ?g0 NOISE = Some [''type'' \<mapsto> JStr ''noise'', ''id'' \<mapsto> JId NOISE,
           ''use_cpu'' \<mapsto> JBool (use_cpu state),
           ''is_intermediate'' \<mapsto> JBool is_intermediate]"
    and b: "nodes ?g0 CANVAS_COHERENCE_NOISE = Some [''type'' \<mapsto> JStr ''noise'', ''id'' \<mapsto> JId NOISE,
           ''use_cpu'' \<mapsto> JBool (use_cpu state),
           ''is_intermediate'' \<mapsto> JBool is_intermediate]"
    by (simp_all add: n0 initialNodes_at)
  note s = scale_effect [OF a b, of state i k]
  have r: "nodes ?g2 RANGE_OF_SIZE =
     Some [''type'' \<mapsto> JStr ''range_of_size'', ''id'' \<mapsto> JId RANGE_OF_SIZE,
           ''is_intermediate'' \<mapsto> JBool is_intermediate,
           ''size'' \<mapsto> JNum (iterations (generation state)), ''step'' \<mapsto> JNum (Finite 1)]"
    by (simp add: coherence_nodes_other s(3) n0 initialNodes_at)
  note t = seed_effect [OF r, of state]
  have cg: "canvasGraph rnd H state i k m = Inr ?g3"
    unfolding canvasGraph_def by (subst s(1), simp only: bindE_Inr, rule t(1))
  then have c: "c = ?g3" by (simp add: c_def)
  note unf = c t(3) coherence_nodes_other coherence_nodes_mask coherence_nodes_edge
    s(3) n0 initialNodes_at scaled_def mode_def W_def Ht_def
  show "canvasGraph rnd H state i k m = Inr c" by (simp add: c cg)
  show "edges c = initialEdges @
      (if scaled
       then [ mkEdge INPAINT_IMAGE_RESIZE_UP ''image'' INPAINT_IMAGE ''image'',
              mkEdge MASK_RESIZE_UP ''image'' MASK_BLUR ''image'',
              mkEdge INPAINT_IMAGE_RESIZE_UP ''image'' INPAINT_CREATE_MASK ''image'',
              mkEdge LATENTS_TO_IMAGE ''image'' INPAINT_IMAGE_RESIZE_DOWN ''image'',
              mkEdge INPAINT_IMAGE_RESIZE_DOWN ''image'' CANVAS_OUTPUT ''image'',
              mkEdge MASK_BLUR ''image'' MASK_RESIZE_DOWN ''image'',
              mkEdge MASK_RESIZE_DOWN ''image'' CANVAS_OUTPUT ''mask'' ]
       else [ mkEdge LATENTS_TO_IMAGE ''image'' CANVAS_OUTPUT ''image'',
              mkEdge MASK_BLUR ''image'' CANVAS_OUTPUT ''mask'' ]) @
      (if mode = ''unmasked'' then []
       else (if scaled
             then [mkEdge INPAINT_IMAGE_RESIZE_UP ''image''
                     CANVAS_COHERENCE_INPAINT_CREATE_MASK ''image'']
             else []) @
            (if mode = ''mask'' \<and> scaled
             then [mkEdge MASK_RESIZE_UP ''image'' CANVAS_COHERENCE_INPAINT_CREATE_MASK ''mask'']
             else []) @
            (if mode = ''edge''
             then (if scaled
                   then [mkEdge MASK_RESIZE_UP ''image'' CANVAS_COHERENCE_MASK_EDGE ''image'']
                   else []) @
                  [mkEdge CANVAS_COHERENCE_MASK_EDGE ''image''
                     CANVAS_COHERENCE_INPAINT_CREATE_MASK ''mask'']
             else []) @
            [mkEdge CANVAS_COHERENCE_INPAINT_CREATE_MASK ''denoise_mask''
               CANVAS_COHERENCE_DENOISE_LATENTS ''denoise_mask'']) @
      (if shouldRandomizeSeed (generation state)
       then [mkEdge RANDOM_INT ''value'' RANGE_OF_SIZE ''start''] else [])"
    unfolding c t(2) coherence_edges s(2) e0 scaled_def mode_def by simp
  show "nodes c NOISE =
       Some [''type'' \<mapsto> JStr ''noise'', ''id'' \<mapsto> JId NOISE,
             ''use_cpu'' \<mapsto> JBool (use_cpu state),
             ''is_intermediate'' \<mapsto> JBool is_intermediate,
             ''width'' \<mapsto> JNum W, ''height'' \<mapsto> JNum Ht]"
    by (simp add: unf)
  show "nodes c CANVAS_COHERENCE_NOISE =
       Some [''type'' \<mapsto> JStr ''noise'', ''id'' \<mapsto> JId NOISE,
             ''use_cpu'' \<mapsto> JBool (use_cpu state),
             ''is_intermediate'' \<mapsto> JBool is_intermediate,
             ''width'' \<mapsto> JNum W, ''height'' \<mapsto> JNum Ht]"
    by (simp add: unf)
  show "nodes c INPAINT_IMAGE_RESIZE_UP =
       (if scaled
        then Some [''type'' \<mapsto> JStr ''img_resize'', ''id'' \<mapsto> JId INPAINT_IMAGE_RESIZE_UP,
                   ''is_intermediate'' \<mapsto> JBool is_intermediate,
                   ''width'' \<mapsto> JNum (width (scaledBoundingBoxDimensions (canvas state))),
                   ''height'' \<mapsto> JNum (height (scaledBoundingBoxDimensions (canvas state))),
                   ''image'' \<mapsto> JImage i]
        else None)"
    by (simp add: unf)
  show "nodes c MASK_RESIZE_UP =
       (if scaled
        then Some [''type'' \<mapsto> JStr ''img_resize'', ''id'' \<mapsto> JId MASK_RESIZE_UP,
                   ''is_intermediate'' \<mapsto> JBool is_intermediate,
                   ''width'' \<mapsto> JNum (width (scaledBoundingBoxDimensions (canvas state))),
                   ''height'' \<mapsto> JNum (height (scaledBoundingBoxDimensions (canvas state))),
                   ''image'' \<mapsto> JImage k]
        else None)"
    by (simp add: unf)
  show "nodes c INPAINT_IMAGE_RESIZE_DOWN =
       (if scaled
        then Some [''type'' \<mapsto> JStr ''img_resize'', ''id'' \<mapsto> JId INPAINT_IMAGE_RESIZE_DOWN,
                   ''is_intermediate'' \<mapsto> JBool is_intermediate,
                   ''width'' \<mapsto> JNum (width (boundingBoxDimensions (canvas state))),
                   ''height'' \<mapsto> JNum (height (boundingBoxDimensions (canvas state)))]
        else None)"
    by (simp add: unf)
  show "nodes c MASK_RESIZE_DOWN =
       (if scaled
        then Some [''type'' \<mapsto> JStr ''img_resize'', ''id'' \<mapsto> JId MASK_RESIZE_DOWN,
                   ''is_intermediate'' \<mapsto> JBool is_intermediate,
                   ''width'' \<mapsto> JNum (width (boundingBoxDimensions (canvas state))),
                   ''height'' \<mapsto> JNum (height (boundingBoxDimensions (canvas state)))]
        else None)"
    by (simp add: unf)
  show "nodes c INPAINT_IMAGE =
       (if scaled
        then Some [''type'' \<mapsto> JStr ''i2l'', ''id'' \<mapsto> JId INPAINT_IMAGE,
                   ''is_intermediate'' \<mapsto> JBool is_intermediate,
                   ''fp32'' \<mapsto> JBool (fp32 state)]
        else Some [''type'' \<mapsto> JStr ''i2l'', ''id'' \<mapsto> JId INPAINT_IMAGE,
                   ''is_intermediate'' \<mapsto> JBool is_intermediate,
                   ''fp32'' \<mapsto> JBool (fp32 state), ''image'' \<mapsto> JImage i])"
    by (simp add: unf)
  show "nodes c MASK_BLUR =
       (if scaled
        then Some [''type'' \<mapsto> JStr ''img_blur'', ''id'' \<mapsto> JId MASK_BLUR,
                   ''is_intermediate'' \<mapsto> JBool is_intermediate,
                   ''radius'' \<mapsto> JNum (maskBlur (generation state)),
                   ''blur_type'' \<mapsto> JStr (maskBlurMethod (generation state))]
        else Some [''type'' \<mapsto> JStr ''img_blur'', ''id'' \<mapsto> JId MASK_BLUR,
                   ''is_intermediate'' \<mapsto> JBool is_intermediate,
                   ''radius'' \<mapsto> JNum (maskBlur (generation state)),
                   ''blur_type'' \<mapsto> JStr (maskBlurMethod (generation state)),
                   ''image'' \<mapsto> JImage k])"
    by (simp add: unf)
  show "nodes c INPAINT_CREATE_MASK =
       (if scaled
        then Some [''type'' \<mapsto> JStr ''create_denoise_mask'', ''id'' \<mapsto> JId INPAINT_CREATE_MASK,
                   ''is_intermediate'' \<mapsto> JBool is_intermediate,
                   ''fp32'' \<mapsto> JBool (fp32 state)]
        else Some [''type'' \<mapsto> JStr ''create_denoise_mask'', ''id'' \<mapsto> JId INPAINT_CREATE_MASK,
                   ''is_intermediate'' \<mapsto> JBool is_intermediate,
                   ''fp32'' \<mapsto> JBool (fp32 state), ''image'' \<mapsto> JImage i])"
    by (simp add: unf)
  show "nodes c CANVAS_COHERENCE_INPAINT_CREATE_MASK =
       (if mode = ''unmasked'' then None
        else Some
          (let n = [''type'' \<mapsto> JStr ''create_denoise_mask'',
                    ''id'' \<mapsto> JId CANVAS_COHERENCE_INPAINT_CREATE_MASK,
                    ''is_intermediate'' \<mapsto> JBool is_intermediate,
                    ''fp32'' \<mapsto> JBool (fp32 state)]
           in if scaled then n
              else if mode = ''mask''
                   then n(''image'' \<mapsto> JImage i, ''mask'' \<mapsto> JImage k)
                   else n(''image'' \<mapsto> JImage i)))"
    by (simp add: unf)
  show "nodes c CANVAS_COHERENCE_MASK_EDGE =
       (if mode = ''edge''
        then Some
          (let n = [''type'' \<mapsto> JStr ''mask_edge'',
                    ''id'' \<mapsto> JId CANVAS_COHERENCE_MASK_EDGE,
                    ''is_intermediate'' \<mapsto> JBool is_intermediate,
                    ''edge_blur'' \<mapsto> JNum (maskBlur (generation state)),
                    ''edge_size'' \<mapsto> JNum (jsMul rnd (maskBlur (generation state)) (Finite 2)),
                    ''low_threshold'' \<mapsto> JNum (Finite 100),
                    ''high_threshold'' \<mapsto> JNum (Finite 200)]
           in if scaled then n else n(''image'' \<mapsto> JImage k))
        else None)"
    by (simp add: unf)
  show "nodes c RANDOM_INT =
       (if shouldRandomizeSeed (generation state)
        then Some [''id'' \<mapsto> JId RANDOM_INT, ''type'' \<mapsto> JStr ''rand_int'']
        else None)"
    by (simp add: unf)
  show "nodes c RANGE_OF_SIZE =
       (if shouldRandomizeSeed (generation state)
        then Some [''type'' \<mapsto> JStr ''range_of_size'', ''id'' \<mapsto> JId RANGE_OF_SIZE,
                   ''is_intermediate'' \<mapsto> JBool is_intermediate,
                   ''size'' \<mapsto> JNum (iterations (generation state)), ''step'' \<mapsto> JNum (Finite 1)]
        else Some [''type'' \<mapsto> JStr ''range_of_size'', ''id'' \<mapsto> JId RANGE_OF_SIZE,
                   ''is_intermediate'' \<mapsto> JBool is_intermediate,
                   ''size'' \<mapsto> JNum (iterations (generation state)), ''step'' \<mapsto> JNum (Finite 1),
                   ''start'' \<mapsto> JNum (seed (generation state))])"
    by (simp add: unf)
  show "nodes c x = initialNodes rnd H state i m x"
    if "x \<in> {SDXL_MODEL_LOADER, POSITIVE_CONDITIONING, NEGATIVE_CONDITIONING,
             SDXL_DENOISE_LATENTS, CANVAS_COHERENCE_NOISE_INCREMENT,
             CANVAS_COHERENCE_DENOISE_LATENTS, LATENTS_TO_IMAGE, CANVAS_OUTPUT, ITERATE}"
    using that by (auto simp add: unf)
qed

lemma build_returns:
  assumes "model (generation state) = Some m"
  shows "buildCanvasSDXLInpaintGraph rnd H state i k =
           Inr (addOptionalStages H state i (projr (canvasGraph rnd H state i k m)))"
  unfolding buildCanvasSDXLInpaintGraph_def
  by (simp add: assms, subst cg_returns, simp only: bindE_Inr)

lemma build_fails:
  assumes "model (generation state) = None"
  shows "buildCanvasSDXLInpaintGraph rnd H state i k = Inl NoModelFound"
  by (simp add: buildCanvasSDXLInpaintGraph_def assms)

lemma stages_preserve:
  assumes hp: "helpersPreserve H state P" and g: "P g"
  shows "P (addOptionalStages H state i g)"
proof -
  note step = hp [unfolded helpersPreserve_def, rule_format]
  let ?seamless = "seamlessXAxis (generation state) \<or> seamlessYAxis (generation state)"
  let ?g1 = "if ?seamless then addSeamlessToLinearGraph H state g SDXL_MODEL_LOADER else g"
  let ?m1 = "if ?seamless then SEAMLESS else SDXL_MODEL_LOADER"
  let ?g2 = "if shouldUseSDXLRefiner (sdxl state)
             then addSDXLRefinerToGraph H state ?g1 CANVAS_COHERENCE_DENOISE_LATENTS ?m1 i
             else ?g1"
  let ?m2 = "if shouldUseSDXLRefiner (sdxl state)
             then (if ?seamless then SDXL_REFINER_SEAMLESS else ?m1) else ?m1"
  let ?g3 = "addVAEToGraph H state ?g2 ?m2"
  let ?g4 = "addSDXLLoRAsToGraph H state ?g3 SDXL_DENOISE_LATENTS ?m2"
  let ?g5 = "addControlNetToLinearGraph H state ?g4 SDXL_DENOISE_LATENTS"
  let ?g6 = "if shouldUseNSFWChecker (system state)
             then addNSFWCheckerToGraph H state ?g5 CANVAS_OUTPUT else ?g5"
  let ?g7 = "if shouldUseWatermarker (system state)
             then addWatermarkerToGraph H state ?g6 CANVAS_OUTPUT else ?g6"
  have eq: "addOptionalStages H state i g = addSaveImageNode H state ?g7"
    by (simp add: addOptionalStages_def Let_def)
  have 1: "P ?g1" using g step [OF g] by simp
  have 2: "P ?g2" using 1 step [OF 1] by simp
  have 3: "P ?g3" using step [OF 2] by blast
  have 4: "P ?g4" using step [OF 3] by blast
  have 5: "P ?g5" using step [OF 4] by blast
  have 6: "P ?g6" using 5 step [OF 5] by simp
  have 7: "P ?g7" using 6 step [OF 6] by simp
  have "P (addSaveImageNode H state ?g7)" using step [OF 7] by blast
  then show ?thesis by (simp only: eq)
qed

lemma stages_keep_node:
  assumes "helpersKeepNodes H state ks" and "x \<in> set ks"
  shows "nodes (addOptionalStages H state i g) x = nodes g x"
proof -
  from assms have "helpersPreserve H state (\<lambda>g'. nodes g' x = nodes g x)"
    by (simp add: helpersKeepNodes_def)
  then show ?thesis by (rule stages_preserve) simp
qed

lemma stages_keep_edge:
  assumes "helpersKeepEdges H state es" and "e \<in> set es"
  shows "(e \<in> set (edges (addOptionalStages H state i g))) = (e \<in> set (edges g))"
proof -
  from assms have "helpersPreserve H state (\<lambda>g'. (e \<in> set (edges g')) = (e \<in> set (edges g)))"
    by (simp add: helpersKeepEdges_def)
  then show ?thesis by (rule stages_preserve) simp
qed

lemma ranked_no_cycle:
  assumes "\<forall>(a, b) \<in> r. f a < (f b :: nat)"
  shows "(x, x) \<notin> r\<^sup>+"
proof
  assume "(x, x) \<in> r\<^sup>+"
  moreover have "r \<subseteq> measure f" using assms by auto
  ultimately have "(x, x) \<in> (measure f)\<^sup>+" using trancl_mono by blast
  moreover have "wf ((measure f)\<^sup>+)" by (rule wf_trancl) simp
  ultimately show False by (simp add: wf_not_refl)
qed

lemma canvas_acyclic: "acyclicGraph (projr (canvasGraph rnd H state i k m))"
  unfolding acyclicGraph_def
proof
  fix n
  have "\<forall>(a, b) \<in> edgeRel (projr (canvasGraph rnd H state i k m)). topoRank a < topoRank b"
    by (auto simp add: edgeRel_def cg_edges initialEdges_def mkEdge_def)
  then show "(n, n) \<notin> (edgeRel (projr (canvasGraph rnd H state i k m)))\<^sup>+"
    by (rule ranked_no_cycle)
qed

lemma canvas_closed: "edgesClosed (projr (canvasGraph rnd H state i k m))"
  by (auto simp add: edgesClosed_def cg_edges initialEdges_def mkEdge_def
      cg_noise cg_coherence_noise cg_image_resize_up cg_mask_resize_up
      cg_image_resize_down cg_mask_resize_down cg_inpaint_image cg_mask_blur
      cg_inpaint_create_mask cg_coherence_mask cg_mask_edge cg_random_int
      cg_range_of_size cg_untouched initialNodes_present)

lemma example_keeps_nodes:
  assumes "\<forall>x \<in> set ks. x \<notin> {SEAMLESS, OtherId ''nsfw_checker'',
                              OtherId ''invisible_watermark'', OtherId ''save_image''}"
  shows "helpersKeepNodes exampleHelpers state ks"
  using assms
  by (auto simp add: helpersKeepNodes_def helpersPreserve_def exampleHelpers_def addNode_def)

lemma example_keeps_edges:
  assumes "\<forall>e \<in> set es. field (source e) \<noteq> ''latents''"
  shows "helpersKeepEdges exampleHelpers state es"
  using assms
  by (auto simp add: helpersKeepEdges_def helpersPreserve_def exampleHelpers_def addNode_def)

lemma jsMul_commute: "jsMul rnd a b = jsMul rnd b a"
  by (cases a; cases b) (simp_all add: mult.commute)

lemma jsLe_refl: "a \<noteq> NaN \<Longrightarrow> jsLe a a"
  by (cases a) simp_all

lemma jsLe_total: "a \<noteq> NaN \<Longrightarrow> b \<noteq> NaN \<Longrightarrow> jsLe a b \<or> jsLe b a"
  by (cases a; cases b) auto

lemma jsMin_le_left:
  assumes "a \<noteq> NaN" and "b \<noteq> NaN"
  shows "jsLe (jsMin a b) a"
  using assms jsLe_refl [of a] jsLe_total [of a b] by (auto simp add: jsMin_def)

lemma stageTrace_ends:
  "stageTrace H state i g \<noteq> []"
  "hd (stageTrace H state i g) = g"
  "last (stageTrace H state i g) = addOptionalStages H state i g"
  by (simp_all add: stageTrace_def addOptionalStages_def Let_def)

lemma stepsAll_invariant:
  assumes "stepsAll S tr" and "tr \<noteq> []" and "I (hd tr)"
    and step: "\<And>p q. I p \<Longrightarrow> S p q \<Longrightarrow> I q"
  shows "I (last tr)"
  using assms(1-3)
proof (induction tr)
  case Nil
  then show ?case by simp
next
  case (Cons p rest)
  show ?case
  proof (cases "rest = []")
    case True
    with Cons.prems show ?thesis by simp
  next
    case False
    then obtain q rest' where rest: "rest = q # rest'" by (cases rest) auto
    with Cons.prems have "S p q" and "stepsAll S rest" and "I p" by simp_all
    then have "I q" using step by blast
    with \<open>stepsAll S rest\<close> False have "I (last rest)"
      using Cons.IH by (simp add: rest)
    with False show ?thesis by simp
  qed
qed

lemma canvas_edges_ranked:
  "\<forall>e \<in> set (edges (projr (canvasGraph rnd H state i k m))).
     node_id (source e) \<in> set builderIds \<and> node_id (destination e) \<in> set builderIds \<and>
     topoRank (node_id (source e)) < topoRank (node_id (destination e))"
  by (auto simp add: cg_edges initialEdges_def mkEdge_def builderIds_def)

lemma forward_run_acyclic:
  assumes "refinesRank r"
    and "stepsAll (addsForwardEdges r)
           (stageTrace H state i (projr (canvasGraph rnd H state i k m)))"
  shows "acyclicGraph (addOptionalStages H state i (projr (canvasGraph rnd H state i k m)))"
proof -
  let ?c = "projr (canvasGraph rnd H state i k m)"
  let ?I = "\<lambda>g. \<forall>e \<in> set (edges g). r (node_id (source e)) < r (node_id (destination e))"
  have "?I ?c"
    using canvas_edges_ranked [of rnd H state i k m] assms(1)
    unfolding refinesRank_def by blast
  then have "?I (hd (stageTrace H state i ?c))" by (simp add: stageTrace_ends)
  with assms(2) have "?I (last (stageTrace H state i ?c))"
    by (rule stepsAll_invariant [OF _ stageTrace_ends(1)])
       (auto simp add: addsForwardEdges_def)
  then have "\<forall>(a, b) \<in> edgeRel (addOptionalStages H state i ?c). r a < r b"
    by (auto simp add: stageTrace_ends edgeRel_def)
  then show ?thesis
    unfolding acyclicGraph_def by (intro allI ranked_no_cycle)
qed

lemma stored_run_closed:
  assumes "stepsAll wiresStoredNodes
             (stageTrace H state i (projr (canvasGraph rnd H state i k m)))"
  shows "edgesClosed (addOptionalStages H state i (projr (canvasGraph rnd H state i k m)))"
proof -
  let ?c = "projr (canvasGraph rnd H state i k m)"
  have "edgesClosed (hd (stageTrace H state i ?c))"
    by (simp add: stageTrace_ends canvas_closed)
  with assms have "edgesClosed (last (stageTrace H state i ?c))"
    by (rule stepsAll_invariant [OF _ stageTrace_ends(1)])
       (fastforce simp add: wiresStoredNodes_def edgesClosed_def)
  then show ?thesis by (simp add: stageTrace_ends)
qed

lemma exampleRank_refines: "refinesRank exampleRank"
  by (simp add: refinesRank_def builderIds_def)

lemma forward_step:
  assumes "edges q = edges p @ es"
    and "\<forall>e \<in> set es. r (node_id (source e)) < r (node_id (destination e))"
  shows "addsForwardEdges r p q"
  using assms by (auto simp add: addsForwardEdges_def)

lemma stored_step:
  assumes "\<And>x. nodes p x \<noteq> None \<Longrightarrow> nodes q x \<noteq> None"
    and "edges q = edges p @ es"
    and "\<forall>e \<in> set es. nodes q (node_id (source e)) \<noteq> None \<and>
                      nodes q (node_id (destination e)) \<noteq> None"
  shows "wiresStoredNodes p q"
  using assms by (auto simp add: wiresStoredNodes_def)

lemma wiring_seamless:
  "nodes (addSeamlessToLinearGraph wiringHelpers state g a) =
     (nodes g)(SEAMLESS \<mapsto> [''type'' \<mapsto> JStr ''seamless'', ''id'' \<mapsto> JId SEAMLESS])"
  "edges (addSeamlessToLinearGraph wiringHelpers state g a) =
     edges g @ [mkEdge a ''unet'' SEAMLESS ''unet'',
                mkEdge SEAMLESS ''unet'' SDXL_DENOISE_LATENTS ''unet'']"
  by (simp_all add: wiringHelpers_def nodes_push nodes_addNode edges_push edges_addNode)

lemma wiring_refiner:
  assumes "seamlessXAxis (generation state) \<or> seamlessYAxis (generation state)"
  shows "nodes (addSDXLRefinerToGraph wiringHelpers state g a b img) =
     (nodes g)
       (OtherId ''sdxl_refiner_denoise_latents'' \<mapsto>
          [''type'' \<mapsto> JStr ''denoise_latents'',
           ''id'' \<mapsto> JId (OtherId ''sdxl_refiner_denoise_latents'')],
        SDXL_REFINER_SEAMLESS \<mapsto>
          [''type'' \<mapsto> JStr ''seamless'', ''id'' \<mapsto> JId SDXL_REFINER_SEAMLESS])"
    and "edges (addSDXLRefinerToGraph wiringHelpers state g a b img) =
     edges g @ [mkEdge a ''latents'' (OtherId ''sdxl_refiner_denoise_latents'') ''latents'',
                mkEdge SDXL_REFINER_SEAMLESS ''unet''
                  (OtherId ''sdxl_refiner_denoise_latents'') ''unet'']"
  using assms
  by (simp_all add: wiringHelpers_def Let_def nodes_push nodes_addNode edges_push edges_addNode)

lemma wiring_vae:
  "nodes (addVAEToGraph wiringHelpers state g a) = nodes g"
  "edges (addVAEToGraph wiringHelpers state g a) =
     edges g @ [mkEdge a ''vae'' LATENTS_TO_IMAGE ''vae'']"
  by (simp_all add: wiringHelpers_def nodes_push edges_push)

lemma wiring_loras:
  "addSDXLLoRAsToGraph wiringHelpers state g a b = g"
  by (simp add: wiringHelpers_def)

lemma wiring_controlnet:
  "nodes (addControlNetToLinearGraph wiringHelpers state g a) =
     (nodes g)(OtherId ''control_net_collect'' \<mapsto>
        [''type'' \<mapsto> JStr ''collect'', ''id'' \<mapsto> JId (OtherId ''control_net_collect'')])"
  "edges (addControlNetToLinearGraph wiringHelpers state g a) =
     edges g @ [mkEdge (OtherId ''control_net_collect'') ''collection'' a ''control'']"
  by (simp_all add: wiringHelpers_def nodes_push nodes_addNode edges_push edges_addNode)

lemma wiring_nsfw:
  "nodes (addNSFWCheckerToGraph wiringHelpers state g a) =
     (nodes g)(OtherId ''nsfw_checker'' \<mapsto>
        [''type'' \<mapsto> JStr ''img_nsfw'', ''id'' \<mapsto> JId (OtherId ''nsfw_checker'')])"
  "edges (addNSFWCheckerToGraph wiringHelpers state g a) =
     edges g @ [mkEdge a ''image'' (OtherId ''nsfw_checker'') ''image'']"
  by (simp_all add: wiringHelpers_def nodes_push nodes_addNode edges_push edges_addNode)

lemma wiring_watermarker:
  "nodes (addWatermarkerToGraph wiringHelpers state g a) =
     (nodes g)(OtherId ''invisible_watermark'' \<mapsto>
        [''type'' \<mapsto> JStr ''img_watermark'',
         ''id'' \<mapsto> JId (OtherId ''invisible_watermark'')])"
  "edges (addWatermarkerToGraph wiringHelpers state g a) =
     edges g @ [mkEdge a ''image'' (OtherId ''invisible_watermark'') ''image'']"
  by (simp_all add: wiringHelpers_def nodes_push nodes_addNode edges_push edges_addNode)

lemma wiring_save:
  "nodes (addSaveImageNode wiringHelpers state g) =
     (nodes g)(OtherId ''save_image'' \<mapsto>
        [''type'' \<mapsto> JStr ''save_image'', ''id'' \<mapsto> JId (OtherId ''save_image'')])"
  "edges (addSaveImageNode wiringHelpers state g) =
     edges g @ [mkEdge CANVAS_OUTPUT ''image'' (OtherId ''save_image'') ''image'']"
  by (simp_all add: wiringHelpers_def nodes_push nodes_addNode edges_push edges_addNode)

lemma exampleState_flags:
  "seamlessXAxis (generation exampleState)"
  "shouldUseSDXLRefiner (sdxl exampleState)"
  "shouldUseNSFWChecker (system exampleState)"
  "shouldUseWatermarker (system exampleState)"
  by (simp_all add: exampleState_def)

lemma example_trace:
  "stageTrace H exampleState i g =
     (let g1 = addSeamlessToLinearGraph H exampleState g SDXL_MODEL_LOADER;
          g2 = addSDXLRefinerToGraph H exampleState g1 CANVAS_COHERENCE_DENOISE_LATENTS
                 SEAMLESS i;
          g3 = addVAEToGraph H exampleState g2 SDXL_REFINER_SEAMLESS;
          g4 = addSDXLLoRAsToGraph H exampleState g3 SDXL_DENOISE_LATENTS
                 SDXL_REFINER_SEAMLESS;
          g5 = addControlNetToLinearGraph H exampleState g4 SDXL_DENOISE_LATENTS;
          g6 = addNSFWCheckerToGraph H exampleState g5 CANVAS_OUTPUT;
          g7 = addWatermarkerToGraph H exampleState g6 CANVAS_OUTPUT
      in [g, g1, g2, g3, g4, g5, g6, g7, addSaveImageNode H exampleState g7])"
  by (simp add: stageTrace_def Let_def exampleState_flags)

lemma wiring_forward:
  "stepsAll (addsForwardEdges exampleRank) (stageTrace wiringHelpers exampleState i g)"
proof -
  define g1 where "g1 = addSeamlessToLinearGraph wiringHelpers exampleState g SDXL_MODEL_LOADER"
  define g2 where "g2 = addSDXLRefinerToGraph wiringHelpers exampleState g1
                          CANVAS_COHERENCE_DENOISE_LATENTS SEAMLESS i"
  define g3 where "g3 = addVAEToGraph wiringHelpers exampleState g2 SDXL_REFINER_SEAMLESS"
  define g5 where "g5 = addControlNetToLinearGraph wiringHelpers exampleState g3
                          SDXL_DENOISE_LATENTS"
  define g6 where "g6 = addNSFWCheckerToGraph wiringHelpers exampleState g5 CANVAS_OUTPUT"
  define g7 where "g7 = addWatermarkerToGraph wiringHelpers exampleState g6 CANVAS_OUTPUT"
  define g8 where "g8 = addSaveImageNode wiringHelpers exampleState g7"
  have tr: "stageTrace wiringHelpers exampleState i g = [g, g1, g2, g3, g3, g5, g6, g7, g8]"
    by (simp add: example_trace Let_def wiring_loras
        g1_def g2_def g3_def g5_def g6_def g7_def g8_def)
  have sx: "seamlessXAxis (generation exampleState) \<or> seamlessYAxis (generation exampleState)"
    by (simp add: exampleState_flags)
  have e1: "edges g1 = edges g @ [mkEdge SDXL_MODEL_LOADER ''unet'' SEAMLESS ''unet'',
                                  mkEdge SEAMLESS ''unet'' SDXL_DENOISE_LATENTS ''unet'']"
    by (simp add: g1_def wiring_seamless)
  have e2: "edges g2 = edges g1 @
      [mkEdge CANVAS_COHERENCE_DENOISE_LATENTS ''latents''
         (OtherId ''sdxl_refiner_denoise_latents'') ''latents'',
       mkEdge SDXL_REFINER_SEAMLESS ''unet'' (OtherId ''sdxl_refiner_denoise_latents'') ''unet'']"
    by (simp add: g2_def wiring_refiner [OF sx])
  have e3: "edges g3 = edges g2 @ [mkEdge SDXL_REFINER_SEAMLESS ''vae'' LATENTS_TO_IMAGE ''vae'']"
    by (simp add: g3_def wiring_vae)
  have e5: "edges g5 = edges g3 @
      [mkEdge (OtherId ''control_net_collect'') ''collection'' SDXL_DENOISE_LATENTS ''control'']"
    by (simp add: g5_def wiring_controlnet)
  have e6: "edges g6 = edges g5 @
      [mkEdge CANVAS_OUTPUT ''image'' (OtherId ''nsfw_checker'') ''image'']"
    by (simp add: g6_def wiring_nsfw)
  have e7: "edges g7 = edges g6 @
      [mkEdge CANVAS_OUTPUT ''image'' (OtherId ''invisible_watermark'') ''image'']"
    by (simp add: g7_def wiring_watermarker)
  have e8: "edges g8 = edges g7 @
      [mkEdge CANVAS_OUTPUT ''image'' (OtherId ''save_image'') ''image'']"
    by (simp add: g8_def wiring_save)
  have 1: "addsForwardEdges exampleRank g g1"
    by (rule forward_step [OF e1]) (simp add: mkEdge_def)
  have 2: "addsForwardEdges exampleRank g1 g2"
    by (rule forward_step [OF e2]) (simp add: mkEdge_def)
  have 3: "addsForwardEdges exampleRank g2 g3"
    by (rule forward_step [OF e3]) (simp add: mkEdge_def)
  have 4: "addsForwardEdges exampleRank g3 g3"
    by (simp add: addsForwardEdges_def)
  have 5: "addsForwardEdges exampleRank g3 g5"
    by (rule forward_step [OF e5]) (simp add: mkEdge_def)
  have 6: "addsForwardEdges exampleRank g5 g6"
    by (rule forward_step [OF e6]) (simp add: mkEdge_def)
  have 7: "addsForwardEdges exampleRank g6 g7"
    by (rule forward_step [OF e7]) (simp add: mkEdge_def)
  have 8: "addsForwardEdges exampleRank g7 g8"
    by (rule forward_step [OF e8]) (simp add: mkEdge_def)
  show ?thesis
    unfolding tr using 1 2 3 4 5 6 7 8 by simp
qed

lemma wiring_stored:
  "stepsAll wiresStoredNodes
     (stageTrace wiringHelpers exampleState i
        (projr (canvasGraph rnd wiringHelpers exampleState i k m)))"
proof -
  define g where "g = projr (canvasGraph rnd wiringHelpers exampleState i k m)"
  define g1 where "g1 = addSeamlessToLinearGraph wiringHelpers exampleState g SDXL_MODEL_LOADER"
  define g2 where "g2 = addSDXLRefinerToGraph wiringHelpers exampleState g1
                          CANVAS_COHERENCE_DENOISE_LATENTS SEAMLESS i"
  define g3 where "g3 = addVAEToGraph wiringHelpers exampleState g2 SDXL_REFINER_SEAMLESS"
  define g5 where "g5 = addControlNetToLinearGraph wiringHelpers exampleState g3
                          SDXL_DENOISE_LATENTS"
  define g6 where "g6 = addNSFWCheckerToGraph wiringHelpers exampleState g5 CANVAS_OUTPUT"
  define g7 where "g7 = addWatermarkerToGraph wiringHelpers exampleState g6 CANVAS_OUTPUT"
  define g8 where "g8 = addSaveImageNode wiringHelpers exampleState g7"
  have tr: "stageTrace wiringHelpers exampleState i g = [g, g1, g2, g3, g3, g5, g6, g7, g8]"
    by (simp add: example_trace Let_def wiring_loras
        g1_def g2_def g3_def g5_def g6_def g7_def g8_def)
  have sx: "seamlessXAxis (generation exampleState) \<or> seamlessYAxis (generation exampleState)"
    by (simp add: exampleState_flags)
  have n1: "nodes g1 = (nodes g)(SEAMLESS \<mapsto>
              [''type'' \<mapsto> JStr ''seamless'', ''id'' \<mapsto> JId SEAMLESS])"
    and e1: "edges g1 = edges g @ [mkEdge SDXL_MODEL_LOADER ''unet'' SEAMLESS ''unet'',
                                   mkEdge SEAMLESS ''unet'' SDXL_DENOISE_LATENTS ''unet'']"
    by (simp_all add: g1_def wiring_seamless)
  have n2: "nodes g2 = (nodes g1)
       (OtherId ''sdxl_refiner_denoise_latents'' \<mapsto>
          [''type'' \<mapsto> JStr ''denoise_latents'',
           ''id'' \<mapsto> JId (OtherId ''sdxl_refiner_denoise_latents'')],
        SDXL_REFINER_SEAMLESS \<mapsto>
          [''type'' \<mapsto> JStr ''seamless'', ''id'' \<mapsto> JId SDXL_REFINER_SEAMLESS])"
    and e2: "edges g2 = edges g1 @
      [mkEdge CANVAS_COHERENCE_DENOISE_LATENTS ''latents''
         (OtherId ''sdxl_refiner_denoise_latents'') ''latents'',
       mkEdge SDXL_REFINER_SEAMLESS ''unet'' (OtherId ''sdxl_refiner_denoise_latents'') ''unet'']"
    by (simp_all add: g2_def wiring_refiner [OF sx])
  have n3: "nodes g3 = nodes g2"
    and e3: "edges g3 = edges g2 @ [mkEdge SDXL_REFINER_SEAMLESS ''vae'' LATENTS_TO_IMAGE ''vae'']"
    by (simp_all add: g3_def wiring_vae)
  have n5: "nodes g5 = (nodes g3)(OtherId ''control_net_collect'' \<mapsto>
        [''type'' \<mapsto> JStr ''collect'', ''id'' \<mapsto> JId (OtherId ''control_net_collect'')])"
    and e5: "edges g5 = edges g3 @
      [mkEdge (OtherId ''control_net_collect'') ''collection'' SDXL_DENOISE_LATENTS ''control'']"
    by (simp_all add: g5_def wiring_controlnet)
  have n6: "nodes g6 = (nodes g5)(OtherId ''nsfw_checker'' \<mapsto>
        [''type'' \<mapsto> JStr ''img_nsfw'', ''id'' \<mapsto> JId (OtherId ''nsfw_checker'')])"
    and e6: "edges g6 = edges g5 @
      [mkEdge CANVAS_OUTPUT ''image'' (OtherId ''nsfw_checker'') ''image'']"
    by (simp_all add: g6_def wiring_nsfw)
  have n7: "nodes g7 = (nodes g6)(OtherId ''invisible_watermark'' \<mapsto>
        [''type'' \<mapsto> JStr ''img_watermark'',
         ''id'' \<mapsto> JId (OtherId ''invisible_watermark'')])"
    and e7: "edges g7 = edges g6 @
      [mkEdge CANVAS_OUTPUT ''image'' (OtherId ''invisible_watermark'') ''image'']"
    by (simp_all add: g7_def wiring_watermarker)
  have n8: "nodes g8 = (nodes g7)(OtherId ''save_image'' \<mapsto>
        [''type'' \<mapsto> JStr ''save_image'', ''id'' \<mapsto> JId (OtherId ''save_image'')])"
    and e8: "edges g8 = edges g7 @
      [mkEdge CANVAS_OUTPUT ''image'' (OtherId ''save_image'') ''image'']"
    by (simp_all add: g8_def wiring_save)
  have base: "nodes g SDXL_MODEL_LOADER \<noteq> None" "nodes g SDXL_DENOISE_LATENTS \<noteq> None"
    "nodes g CANVAS_COHERENCE_DENOISE_LATENTS \<noteq> None" "nodes g LATENTS_TO_IMAGE \<noteq> None"
    "nodes g CANVAS_OUTPUT \<noteq> None"
    using initialNodes_present [of rnd wiringHelpers exampleState i m]
    by (simp_all add: g_def cg_untouched)
  have 1: "wiresStoredNodes g g1"
    by (rule stored_step [OF _ e1]) (use base in \<open>simp_all add: n1 mkEdge_def\<close>)
  have 2: "wiresStoredNodes g1 g2"
    by (rule stored_step [OF _ e2]) (use base in \<open>simp_all add: n2 n1 mkEdge_def\<close>)
  have 3: "wiresStoredNodes g2 g3"
    by (rule stored_step [OF _ e3]) (use base in \<open>simp_all add: n3 n2 n1 mkEdge_def\<close>)
  have 4: "wiresStoredNodes g3 g3"
    by (simp add: wiresStoredNodes_def)
  have 5: "wiresStoredNodes g3 g5"
    by (rule stored_step [OF _ e5]) (use base in \<open>simp_all add: n5 n3 n2 n1 mkEdge_def\<close>)
  have 6: "wiresStoredNodes g5 g6"
    by (rule stored_step [OF _ e6]) (use base in \<open>simp_all add: n6 n5 n3 n2 n1 mkEdge_def\<close>)
  have 7: "wiresStoredNodes g6 g7"
    by (rule stored_step [OF _ e7]) (use base in \<open>simp_all add: n7 n6 n5 n3 n2 n1 mkEdge_def\<close>)
  have 8: "wiresStoredNodes g7 g8"
    by (rule stored_step [OF _ e8])
       (use base in \<open>simp_all add: n8 n7 n6 n5 n3 n2 n1 mkEdge_def\<close>)
  show ?thesis
    unfolding g_def [symmetric] tr using 1 2 3 4 5 6 7 8 by simp
qed

section \<open>The claims\<close>

text \<open>
  C1. The builder raises exactly when \<^verbatim>\<open>state.generation.model\<close> is null or undefined
  (\<open>None\<close>); for every state with a model selected, and every pair of init and mask
  images, it returns a graph. The property writes on \<^verbatim>\<open>graph.nodes[NOISE]\<close>,
  \<^verbatim>\<open>graph.nodes[CANVAS_COHERENCE_NOISE]\<close> and \<^verbatim>\<open>graph.nodes[RANGE_OF_SIZE]\<close> never
  meet a missing node.
\<close>

theorem C1_raises_iff_no_model:
  "((\<exists>e. buildCanvasSDXLInpaintGraph rnd H state i k = Inl e)
      \<longleftrightarrow> model (generation state) = None) \<and>
   (model (generation state) \<noteq> None
      \<longrightarrow> (\<exists>g. buildCanvasSDXLInpaintGraph rnd H state i k = Inr g))"
proof (cases "model (generation state)")
  case None
  then show ?thesis by (simp add: build_fails)
next
  case (Some m)
  then show ?thesis by (simp add: build_returns)
qed

theorem C1_raises_iff_no_model_witness:
  "model (generation exampleState) \<noteq> None \<and>
   (\<exists>g. buildCanvasSDXLInpaintGraph exactRounding exampleHelpers exampleState
          exampleInitImage exampleMaskImage = Inr g) \<and>
   \<not> (\<exists>e. buildCanvasSDXLInpaintGraph exactRounding exampleHelpers exampleState
          exampleInitImage exampleMaskImage = Inl e)"
proof -
  have h: "model (generation exampleState) \<noteq> None" by (simp add: exampleState_def)
  show ?thesis
    using h C1_raises_iff_no_model [of exactRounding exampleHelpers exampleState
        exampleInitImage exampleMaskImage]
    by simp
qed

text \<open>
  C2. The claim asks that the \<^verbatim>\<open>id\<close> field of every node be distinct from the
  \<^verbatim>\<open>id\<close> field of every other node and equal to the key the node is stored under.
  The object literal stores under \<^verbatim>\<open>CANVAS_COHERENCE_NOISE\<close> a node whose \<^verbatim>\<open>id\<close> is
  \<^verbatim>\<open>NOISE\<close>: whenever a model is selected and the helpers leave the two noise nodes as
  they are, the returned graph has two nodes with the same \<^verbatim>\<open>id\<close>, one of them under a
  key that is not its \<^verbatim>\<open>id\<close>.
\<close>

theorem C2_coherence_noise_carries_noise_id:
  assumes "model (generation state) = Some m"
    and "helpersKeepNodes H state [NOISE, CANVAS_COHERENCE_NOISE]"
  shows "\<exists>g. buildCanvasSDXLInpaintGraph rnd H state i k = Inr g \<and>
           nodeField g NOISE ''id'' = Some (JId NOISE) \<and>
           nodeField g CANVAS_COHERENCE_NOISE ''id'' = Some (JId NOISE) \<and>
           CANVAS_COHERENCE_NOISE \<noteq> NOISE"
proof -
  let ?c = "projr (canvasGraph rnd H state i k m)"
  let ?g = "addOptionalStages H state i ?c"
  have "buildCanvasSDXLInpaintGraph rnd H state i k = Inr ?g"
    by (rule build_returns [OF assms(1)])
  moreover have "nodeField ?g NOISE ''id'' = Some (JId NOISE)"
    by (simp add: nodeField_def stages_keep_node [OF assms(2)] cg_noise)
  moreover have "nodeField ?g CANVAS_COHERENCE_NOISE ''id'' = Some (JId NOISE)"
    by (simp add: nodeField_def stages_keep_node [OF assms(2)] cg_coherence_noise)
  ultimately show ?thesis by blast
qed

theorem C2_coherence_noise_carries_noise_id_witness:
  "model (generation exampleState) = Some (MainModelParam ''sd_xl_base_1.0'' ''sdxl'') \<and>
   helpersKeepNodes exampleHelpers exampleState [NOISE, CANVAS_COHERENCE_NOISE] \<and>
   (\<exists>g. buildCanvasSDXLInpaintGraph exactRounding exampleHelpers exampleState
          exampleInitImage exampleMaskImage = Inr g \<and>
        nodeField g NOISE ''id'' = Some (JId NOISE) \<and>
        nodeField g CANVAS_COHERENCE_NOISE ''id'' = Some (JId NOISE) \<and>
        CANVAS_COHERENCE_NOISE \<noteq> NOISE)"
proof -
  have h1: "model (generation exampleState) = Some (MainModelParam ''sd_xl_base_1.0'' ''sdxl'')"
    by (simp add: exampleState_def)
  have h2: "helpersKeepNodes exampleHelpers exampleState [NOISE, CANVAS_COHERENCE_NOISE]"
    by (rule example_keeps_nodes) simp
  show ?thesis
    using h1 h2 C2_coherence_noise_carries_noise_id
      [OF h1 h2, of exactRounding exampleInitImage exampleMaskImage]
    by blast
qed

text \<open>
  C4. For every state with a model selected the graph is acyclic: no non-empty path along
  the edges, each directed from its source node to its destination node, starts and ends
  at the same node. The graph that the object literal and the builder's own branches
  produce is acyclic for every state. The returned graph is the last graph of the run of
  the helpers on it. Asked of the helpers: every edge that a call of this run adds leads
  upward in a rank that orders the builder's nodes as \<open>topoRank\<close> does. A helper that
  stores a node of its own and wires it downstream of the node it is handed does so.
\<close>

theorem C4_acyclic:
  assumes "model (generation state) = Some m"
  shows "\<exists>c g. canvasGraph rnd H state i k m = Inr c \<and>
           buildCanvasSDXLInpaintGraph rnd H state i k = Inr g \<and>
           g = last (stageTrace H state i c) \<and>
           (\<forall>n. (n, n) \<notin> (edgeRel c)\<^sup>+) \<and>
           (refinesRank r \<and> stepsAll (addsForwardEdges r) (stageTrace H state i c)
              \<longrightarrow> (\<forall>n. (n, n) \<notin> (edgeRel g)\<^sup>+))"
proof -
  let ?c = "projr (canvasGraph rnd H state i k m)"
  let ?g = "addOptionalStages H state i ?c"
  have c: "canvasGraph rnd H state i k m = Inr ?c" by (rule cg_returns)
  have b: "buildCanvasSDXLInpaintGraph rnd H state i k = Inr ?g"
    by (rule build_returns [OF assms])
  have l: "?g = last (stageTrace H state i ?c)" by (simp add: stageTrace_ends)
  have a: "acyclicGraph ?c" by (rule canvas_acyclic)
  have "acyclicGraph ?g"
    if "refinesRank r \<and> stepsAll (addsForwardEdges r) (stageTrace H state i ?c)"
    using that forward_run_acyclic [of r H state i rnd k m] by blast
  with a c b l show ?thesis unfolding acyclicGraph_def by blast
qed

theorem C4_acyclic_witness:
  "model (generation exampleState) = Some (MainModelParam ''sd_xl_base_1.0'' ''sdxl'') \<and>
   refinesRank exampleRank \<and>
   stepsAll (addsForwardEdges exampleRank)
     (stageTrace wiringHelpers exampleState exampleInitImage
        (projr (canvasGraph exactRounding wiringHelpers exampleState
                  exampleInitImage exampleMaskImage
                  (MainModelParam ''sd_xl_base_1.0'' ''sdxl'')))) \<and>
   (\<exists>g. buildCanvasSDXLInpaintGraph exactRounding wiringHelpers exampleState
          exampleInitImage exampleMaskImage = Inr g \<and>
        hasEdge g CANVAS_OUTPUT ''image'' (OtherId ''save_image'') ''image'' \<and>
        (\<forall>n. (n, n) \<notin> (edgeRel g)\<^sup>+))"
proof -
  have h1: "model (generation exampleState) = Some (MainModelParam ''sd_xl_base_1.0'' ''sdxl'')"
    by (simp add: exampleState_def)
  have h2: "refinesRank exampleRank" by (rule exampleRank_refines)
  have h3: "stepsAll (addsForwardEdges exampleRank)
     (stageTrace wiringHelpers exampleState exampleInitImage c)" for c
    by (rule wiring_forward)
  from C4_acyclic [OF h1, of exactRounding wiringHelpers exampleInitImage exampleMaskImage
      exampleRank]
  obtain c g where c: "canvasGraph exactRounding wiringHelpers exampleState
        exampleInitImage exampleMaskImage (MainModelParam ''sd_xl_base_1.0'' ''sdxl'') = Inr c"
    and g: "buildCanvasSDXLInpaintGraph exactRounding wiringHelpers exampleState
          exampleInitImage exampleMaskImage = Inr g"
    and l: "g = last (stageTrace wiringHelpers exampleState exampleInitImage c)"
    and imp: "refinesRank exampleRank \<and> stepsAll (addsForwardEdges exampleRank)
                (stageTrace wiringHelpers exampleState exampleInitImage c)
              \<longrightarrow> (\<forall>n. (n, n) \<notin> (edgeRel g)\<^sup>+)"
    by blast
  have e: "hasEdge g CANVAS_OUTPUT ''image'' (OtherId ''save_image'') ''image''"
    by (simp add: l example_trace Let_def hasEdge_def wiring_save)
  from imp h2 h3 have "\<forall>n. (n, n) \<notin> (edgeRel g)\<^sup>+" by blast
  with h1 h2 h3 g e show ?thesis by blast
qed

text \<open>
  C5. Each edge's source and destination node id is a key of the nodes map: the edges of
  the object literal, of the scaled-dimensions branch, of the coherence-mode branch and
  of the seed branch only name nodes that the same or an earlier step has stored. The
  returned graph is the last graph of the run of the helpers on that graph. Asked of the
  helpers: no call of this run removes a node, and both ends of every edge that a call
  adds are stored when the call returns. For the ids that the builder hands on as the
  model loader, \<^verbatim>\<open>SEAMLESS\<close> and \<^verbatim>\<open>SDXL_REFINER_SEAMLESS\<close>, this asks that a helper has
  stored them before another helper wires them: the builder does not store them itself.
\<close>

theorem C5_edges_name_nodes:
  assumes "model (generation state) = Some m"
  shows "\<exists>c g. canvasGraph rnd H state i k m = Inr c \<and>
           buildCanvasSDXLInpaintGraph rnd H state i k = Inr g \<and>
           g = last (stageTrace H state i c) \<and>
           (\<forall>e \<in> set (edges c).
              nodes c (node_id (source e)) \<noteq> None \<and>
              nodes c (node_id (destination e)) \<noteq> None) \<and>
           (stepsAll wiresStoredNodes (stageTrace H state i c) \<longrightarrow>
              (\<forall>e \<in> set (edges g).
                 nodes g (node_id (source e)) \<noteq> None \<and>
                 nodes g (node_id (destination e)) \<noteq> None))"
proof -
  let ?c = "projr (canvasGraph rnd H state i k m)"
  let ?g = "addOptionalStages H state i ?c"
  have c: "canvasGraph rnd H state i k m = Inr ?c" by (rule cg_returns)
  have b: "buildCanvasSDXLInpaintGraph rnd H state i k = Inr ?g"
    by (rule build_returns [OF assms])
  have l: "?g = last (stageTrace H state i ?c)" by (simp add: stageTrace_ends)
  have a: "edgesClosed ?c" by (rule canvas_closed)
  have "edgesClosed ?g" if "stepsAll wiresStoredNodes (stageTrace H state i ?c)"
    using that by (rule stored_run_closed)
  with a c b l show ?thesis unfolding edgesClosed_def by blast
qed

theorem C5_edges_name_nodes_witness:
  "model (generation exampleState) = Some (MainModelParam ''sd_xl_base_1.0'' ''sdxl'') \<and>
   stepsAll wiresStoredNodes
     (stageTrace wiringHelpers exampleState exampleInitImage
        (projr (canvasGraph exactRounding wiringHelpers exampleState
                  exampleInitImage exampleMaskImage
                  (MainModelParam ''sd_xl_base_1.0'' ''sdxl'')))) \<and>
   (\<exists>g. buildCanvasSDXLInpaintGraph exactRounding wiringHelpers exampleState
          exampleInitImage exampleMaskImage = Inr g \<and>
        hasEdge g SDXL_REFINER_SEAMLESS ''vae'' LATENTS_TO_IMAGE ''vae'' \<and>
        (\<forall>e \<in> set (edges g).
           nodes g (node_id (source e)) \<noteq> None \<and>
           nodes g (node_id (destination e)) \<noteq> None))"
proof -
  let ?c = "projr (canvasGraph exactRounding wiringHelpers exampleState
                  exampleInitImage exampleMaskImage
                  (MainModelParam ''sd_xl_base_1.0'' ''sdxl''))"
  have h1: "model (generation exampleState) = Some (MainModelParam ''sd_xl_base_1.0'' ''sdxl'')"
    by (simp add: exampleState_def)
  have h2: "stepsAll wiresStoredNodes
              (stageTrace wiringHelpers exampleState exampleInitImage ?c)"
    by (rule wiring_stored)
  from C5_edges_name_nodes [OF h1, of exactRounding wiringHelpers
      exampleInitImage exampleMaskImage]
  obtain c g where c: "canvasGraph exactRounding wiringHelpers exampleState
        exampleInitImage exampleMaskImage (MainModelParam ''sd_xl_base_1.0'' ''sdxl'') = Inr c"
    and g: "buildCanvasSDXLInpaintGraph exactRounding wiringHelpers exampleState
          exampleInitImage exampleMaskImage = Inr g"
    and l: "g = last (stageTrace wiringHelpers exampleState exampleInitImage c)"
    and imp: "stepsAll wiresStoredNodes
                (stageTrace wiringHelpers exampleState exampleInitImage c)
              \<longrightarrow> (\<forall>e \<in> set (edges g).
                     nodes g (node_id (source e)) \<noteq> None \<and>
                     nodes g (node_id (destination e)) \<noteq> None)"
    by blast
  from c have "c = ?c" by simp
  with imp h2 have closed: "\<forall>e \<in> set (edges g).
      nodes g (node_id (source e)) \<noteq> None \<and> nodes g (node_id (destination e)) \<noteq> None"
    by blast
  have e: "hasEdge g SDXL_REFINER_SEAMLESS ''vae'' LATENTS_TO_IMAGE ''vae''"
    by (simp add: l example_trace Let_def hasEdge_def wiring_save wiring_watermarker
        wiring_nsfw wiring_controlnet wiring_loras wiring_vae)
  from h1 h2 g e closed show ?thesis by blast
qed

text \<open>
  C6. The returned graph has the \<^verbatim>\<open>CANVAS_COHERENCE_INPAINT_CREATE_MASK\<close> node (type
  \<^verbatim>\<open>create_denoise_mask\<close>) and an edge from its \<^verbatim>\<open>denoise_mask\<close> output to the
  \<^verbatim>\<open>denoise_mask\<close> input of \<^verbatim>\<open>CANVAS_COHERENCE_DENOISE_LATENTS\<close> if and only if
  \<^verbatim>\<open>canvasCoherenceMode\<close> is not \<^verbatim>\<open>'unmasked'\<close>; it has the
  \<^verbatim>\<open>CANVAS_COHERENCE_MASK_EDGE\<close> node (type \<^verbatim>\<open>mask_edge\<close>, \<^verbatim>\<open>edge_blur\<close> equal to
  \<^verbatim>\<open>maskBlur\<close>, \<^verbatim>\<open>edge_size\<close> equal to twice \<^verbatim>\<open>maskBlur\<close>, thresholds 100 and 200)
  feeding the \<^verbatim>\<open>mask\<close> input of that mask node if and only if the mode is \<^verbatim>\<open>'edge'\<close>.
  Asked of the helpers: they leave these two nodes and these two edges as they are.
\<close>

theorem C6_coherence_mode:
  assumes "model (generation state) = Some m"
    and "helpersKeepNodes H state
           [CANVAS_COHERENCE_INPAINT_CREATE_MASK, CANVAS_COHERENCE_MASK_EDGE]"
    and "helpersKeepEdges H state
           [mkEdge CANVAS_COHERENCE_INPAINT_CREATE_MASK ''denoise_mask''
              CANVAS_COHERENCE_DENOISE_LATENTS ''denoise_mask'',
            mkEdge CANVAS_COHERENCE_MASK_EDGE ''image''
              CANVAS_COHERENCE_INPAINT_CREATE_MASK ''mask'']"
  shows "\<exists>g. buildCanvasSDXLInpaintGraph rnd H state i k = Inr g \<and>
     ((nodeField g CANVAS_COHERENCE_INPAINT_CREATE_MASK ''type''
         = Some (JStr ''create_denoise_mask'') \<and>
       hasEdge g CANVAS_COHERENCE_INPAINT_CREATE_MASK ''denoise_mask''
         CANVAS_COHERENCE_DENOISE_LATENTS ''denoise_mask'')
      \<longleftrightarrow> canvasCoherenceMode (generation state) \<noteq> ''unmasked'') \<and>
     ((nodeField g CANVAS_COHERENCE_MASK_EDGE ''type'' = Some (JStr ''mask_edge'') \<and>
       nodeField g CANVAS_COHERENCE_MASK_EDGE ''edge_blur''
         = Some (JNum (maskBlur (generation state))) \<and>
       nodeField g CANVAS_COHERENCE_MASK_EDGE ''edge_size''
         = Some (JNum (jsMul rnd (Finite 2) (maskBlur (generation state)))) \<and>
       nodeField g CANVAS_COHERENCE_MASK_EDGE ''low_threshold'' = Some (JNum (Finite 100)) \<and>
       nodeField g CANVAS_COHERENCE_MASK_EDGE ''high_threshold'' = Some (JNum (Finite 200)) \<and>
       hasEdge g CANVAS_COHERENCE_MASK_EDGE ''image''
         CANVAS_COHERENCE_INPAINT_CREATE_MASK ''mask'')
      \<longleftrightarrow> canvasCoherenceMode (generation state) = ''edge'')"
proof -
  let ?c = "projr (canvasGraph rnd H state i k m)"
  let ?g = "addOptionalStages H state i ?c"
  note kn = stages_keep_node [OF assms(2)]
  note ke = stages_keep_edge [OF assms(3)]
  have b: "buildCanvasSDXLInpaintGraph rnd H state i k = Inr ?g"
    by (rule build_returns [OF assms(1)])
  have 1: "(nodeField ?g CANVAS_COHERENCE_INPAINT_CREATE_MASK ''type''
         = Some (JStr ''create_denoise_mask'') \<and>
       hasEdge ?g CANVAS_COHERENCE_INPAINT_CREATE_MASK ''denoise_mask''
         CANVAS_COHERENCE_DENOISE_LATENTS ''denoise_mask'')
      \<longleftrightarrow> canvasCoherenceMode (generation state) \<noteq> ''unmasked''"
    by (simp add: nodeField_def hasEdge_def kn ke cg_coherence_mask cg_edges
        initialEdges_def mkEdge_def Let_def)
  have 2: "(nodeField ?g CANVAS_COHERENCE_MASK_EDGE ''type'' = Some (JStr ''mask_edge'') \<and>
       nodeField ?g CANVAS_COHERENCE_MASK_EDGE ''edge_blur''
         = Some (JNum (maskBlur (generation state))) \<and>
       nodeField ?g CANVAS_COHERENCE_MASK_EDGE ''edge_size''
         = Some (JNum (jsMul rnd (Finite 2) (maskBlur (generation state)))) \<and>
       nodeField ?g CANVAS_COHERENCE_MASK_EDGE ''low_threshold'' = Some (JNum (Finite 100)) \<and>
       nodeField ?g CANVAS_COHERENCE_MASK_EDGE ''high_threshold'' = Some (JNum (Finite 200)) \<and>
       hasEdge ?g CANVAS_COHERENCE_MASK_EDGE ''image''
         CANVAS_COHERENCE_INPAINT_CREATE_MASK ''mask'')
      \<longleftrightarrow> canvasCoherenceMode (generation state) = ''edge''"
    by (simp add: nodeField_def hasEdge_def kn ke cg_mask_edge cg_edges
        initialEdges_def mkEdge_def Let_def jsMul_commute [of rnd "Finite 2"])
  from b 1 2 show ?thesis by blast
qed

theorem C6_coherence_mode_witness:
  "model (generation exampleState) = Some (MainModelParam ''sd_xl_base_1.0'' ''sdxl'') \<and>
   helpersKeepNodes exampleHelpers exampleState
     [CANVAS_COHERENCE_INPAINT_CREATE_MASK, CANVAS_COHERENCE_MASK_EDGE] \<and>
   helpersKeepEdges exampleHelpers exampleState
     [mkEdge CANVAS_COHERENCE_INPAINT_CREATE_MASK ''denoise_mask''
        CANVAS_COHERENCE_DENOISE_LATENTS ''denoise_mask'',
      mkEdge CANVAS_COHERENCE_MASK_EDGE ''image''
        CANVAS_COHERENCE_INPAINT_CREATE_MASK ''mask''] \<and>
   (\<exists>g. buildCanvasSDXLInpaintGraph exactRounding exampleHelpers exampleState
          exampleInitImage exampleMaskImage = Inr g \<and>
      nodeField g CANVAS_COHERENCE_INPAINT_CREATE_MASK ''type''
        = Some (JStr ''create_denoise_mask'') \<and>
      hasEdge g CANVAS_COHERENCE_INPAINT_CREATE_MASK ''denoise_mask''
        CANVAS_COHERENCE_DENOISE_LATENTS ''denoise_mask'' \<and>
      nodeField g CANVAS_COHERENCE_MASK_EDGE ''type'' = Some (JStr ''mask_edge'') \<and>
      nodeField g CANVAS_COHERENCE_MASK_EDGE ''edge_blur'' = Some (JNum (Finite 16)) \<and>
      nodeField g CANVAS_COHERENCE_MASK_EDGE ''edge_size'' = Some (JNum (Finite 32)) \<and>
      nodeField g CANVAS_COHERENCE_MASK_EDGE ''low_threshold'' = Some (JNum (Finite 100)) \<and>
      nodeField g CANVAS_COHERENCE_MASK_EDGE ''high_threshold'' = Some (JNum (Finite 200)) \<and>
      hasEdge g CANVAS_COHERENCE_MASK_EDGE ''image''
        CANVAS_COHERENCE_INPAINT_CREATE_MASK ''mask'')"
proof -
  have h1: "model (generation exampleState) = Some (MainModelParam ''sd_xl_base_1.0'' ''sdxl'')"
    by (simp add: exampleState_def)
  have h2: "helpersKeepNodes exampleHelpers exampleState
     [CANVAS_COHERENCE_INPAINT_CREATE_MASK, CANVAS_COHERENCE_MASK_EDGE]"
    by (rule example_keeps_nodes) simp
  have h3: "helpersKeepEdges exampleHelpers exampleState
     [mkEdge CANVAS_COHERENCE_INPAINT_CREATE_MASK ''denoise_mask''
        CANVAS_COHERENCE_DENOISE_LATENTS ''denoise_mask'',
      mkEdge CANVAS_COHERENCE_MASK_EDGE ''image''
        CANVAS_COHERENCE_INPAINT_CREATE_MASK ''mask'']"
    by (rule example_keeps_edges) (simp add: mkEdge_def)
  have m: "canvasCoherenceMode (generation exampleState) = ''edge''"
    and mb: "maskBlur (generation exampleState) = Finite 16"
    by (simp_all add: exampleState_def)
  show ?thesis
    using h1 h2 h3
      C6_coherence_mode [OF h1 h2 h3, of exactRounding exampleInitImage exampleMaskImage]
    unfolding m mb by (simp add: exactRounding_def)
qed

text \<open>
  C7. If \<^verbatim>\<open>boundingBoxScaleMethod\<close> is \<^verbatim>\<open>'auto'\<close> or \<^verbatim>\<open>'manual'\<close>, the graph has the
  four \<^verbatim>\<open>img_resize\<close> nodes, the two up-resize nodes carry the scaled bounding-box width
  and height, and so do both noise nodes. Otherwise none of the four resize nodes is
  present, both noise nodes carry the bounding-box width and height, and the init and mask
  images sit on the \<^verbatim>\<open>INPAINT_IMAGE\<close>, \<^verbatim>\<open>MASK_BLUR\<close> and \<^verbatim>\<open>INPAINT_CREATE_MASK\<close> nodes.
  Asked of the helpers: they leave these nine nodes as they are.
\<close>

theorem C7_scaled_dimensions:
  assumes "model (generation state) = Some m"
    and "helpersKeepNodes H state
           [INPAINT_IMAGE_RESIZE_UP, MASK_RESIZE_UP, INPAINT_IMAGE_RESIZE_DOWN,
            MASK_RESIZE_DOWN, NOISE, CANVAS_COHERENCE_NOISE, INPAINT_IMAGE, MASK_BLUR,
            INPAINT_CREATE_MASK]"
  shows "\<exists>g. buildCanvasSDXLInpaintGraph rnd H state i k = Inr g \<and>
     (boundingBoxScaleMethod (canvas state) = ''auto'' \<or>
      boundingBoxScaleMethod (canvas state) = ''manual'' \<longrightarrow>
        (\<forall>x \<in> {INPAINT_IMAGE_RESIZE_UP, MASK_RESIZE_UP, INPAINT_IMAGE_RESIZE_DOWN,
                MASK_RESIZE_DOWN}.
           nodeField g x ''type'' = Some (JStr ''img_resize'')) \<and>
        (\<forall>x \<in> {INPAINT_IMAGE_RESIZE_UP, MASK_RESIZE_UP, NOISE, CANVAS_COHERENCE_NOISE}.
           nodeField g x ''width''
             = Some (JNum (width (scaledBoundingBoxDimensions (canvas state)))) \<and>
           nodeField g x ''height''
             = Some (JNum (height (scaledBoundingBoxDimensions (canvas state)))))) \<and>
     (\<not> (boundingBoxScaleMethod (canvas state) = ''auto'' \<or>
         boundingBoxScaleMethod (canvas state) = ''manual'') \<longrightarrow>
        (\<forall>x \<in> {INPAINT_IMAGE_RESIZE_UP, MASK_RESIZE_UP, INPAINT_IMAGE_RESIZE_DOWN,
                MASK_RESIZE_DOWN}.
           nodes g x = None) \<and>
        (\<forall>x \<in> {NOISE, CANVAS_COHERENCE_NOISE}.
           nodeField g x ''width''
             = Some (JNum (width (boundingBoxDimensions (canvas state)))) \<and>
           nodeField g x ''height''
             = Some (JNum (height (boundingBoxDimensions (canvas state))))) \<and>
        nodeField g INPAINT_IMAGE ''image'' = Some (JImage i) \<and>
        nodeField g MASK_BLUR ''image'' = Some (JImage k) \<and>
        nodeField g INPAINT_CREATE_MASK ''image'' = Some (JImage i))"
proof -
  let ?c = "projr (canvasGraph rnd H state i k m)"
  let ?g = "addOptionalStages H state i ?c"
  note kn = stages_keep_node [OF assms(2)]
  note facts = nodeField_def kn isUsingScaledDimensions_def
    cg_image_resize_up cg_mask_resize_up cg_image_resize_down cg_mask_resize_down
    cg_noise cg_coherence_noise cg_inpaint_image cg_mask_blur cg_inpaint_create_mask
  have b: "buildCanvasSDXLInpaintGraph rnd H state i k = Inr ?g"
    by (rule build_returns [OF assms(1)])
  have 1: "boundingBoxScaleMethod (canvas state) = ''auto'' \<or>
      boundingBoxScaleMethod (canvas state) = ''manual'' \<longrightarrow>
        (\<forall>x \<in> {INPAINT_IMAGE_RESIZE_UP, MASK_RESIZE_UP, INPAINT_IMAGE_RESIZE_DOWN,
                MASK_RESIZE_DOWN}.
           nodeField ?g x ''type'' = Some (JStr ''img_resize'')) \<and>
        (\<forall>x \<in> {INPAINT_IMAGE_RESIZE_UP, MASK_RESIZE_UP, NOISE, CANVAS_COHERENCE_NOISE}.
           nodeField ?g x ''width''
             = Some (JNum (width (scaledBoundingBoxDimensions (canvas state)))) \<and>
           nodeField ?g x ''height''
             = Some (JNum (height (scaledBoundingBoxDimensions (canvas state)))))"
    by (simp add: facts)
  have 2: "\<not> (boundingBoxScaleMethod (canvas state) = ''auto'' \<or>
         boundingBoxScaleMethod (canvas state) = ''manual'') \<longrightarrow>
        (\<forall>x \<in> {INPAINT_IMAGE_RESIZE_UP, MASK_RESIZE_UP, INPAINT_IMAGE_RESIZE_DOWN,
                MASK_RESIZE_DOWN}.
           nodes ?g x = None) \<and>
        (\<forall>x \<in> {NOISE, CANVAS_COHERENCE_NOISE}.
           nodeField ?g x ''width''
             = Some (JNum (width (boundingBoxDimensions (canvas state)))) \<and>
           nodeField ?g x ''height''
             = Some (JNum (height (boundingBoxDimensions (canvas state))))) \<and>
        nodeField ?g INPAINT_IMAGE ''image'' = Some (JImage i) \<and>
        nodeField ?g MASK_BLUR ''image'' = Some (JImage k) \<and>
        nodeField ?g INPAINT_CREATE_MASK ''image'' = Some (JImage i)"
    by (simp add: facts)
  from b 1 2 show ?thesis by blast
qed

theorem C7_scaled_dimensions_witness:
  "model (generation exampleState) = Some (MainModelParam ''sd_xl_base_1.0'' ''sdxl'') \<and>
   helpersKeepNodes exampleHelpers exampleState
     [INPAINT_IMAGE_RESIZE_UP, MASK_RESIZE_UP, INPAINT_IMAGE_RESIZE_DOWN,
      MASK_RESIZE_DOWN, NOISE, CANVAS_COHERENCE_NOISE, INPAINT_IMAGE, MASK_BLUR,
      INPAINT_CREATE_MASK] \<and>
   boundingBoxScaleMethod (canvas exampleState) = ''auto'' \<and>
   (\<exists>g. buildCanvasSDXLInpaintGraph exactRounding exampleHelpers exampleState
          exampleInitImage exampleMaskImage = Inr g \<and>
      nodeField g INPAINT_IMAGE_RESIZE_UP ''type'' = Some (JStr ''img_resize'') \<and>
      nodeField g MASK_RESIZE_UP ''type'' = Some (JStr ''img_resize'') \<and>
      nodeField g INPAINT_IMAGE_RESIZE_DOWN ''type'' = Some (JStr ''img_resize'') \<and>
      nodeField g MASK_RESIZE_DOWN ''type'' = Some (JStr ''img_resize'') \<and>
      nodeField g INPAINT_IMAGE_RESIZE_UP ''width'' = Some (JNum (Finite 1024)) \<and>
      nodeField g INPAINT_IMAGE_RESIZE_UP ''height'' = Some (JNum (Finite 1536)) \<and>
      nodeField g MASK_RESIZE_UP ''width'' = Some (JNum (Finite 1024)) \<and>
      nodeField g MASK_RESIZE_UP ''height'' = Some (JNum (Finite 1536)) \<and>
      nodeField g NOISE ''width'' = Some (JNum (Finite 1024)) \<and>
      nodeField g NOISE ''height'' = Some (JNum (Finite 1536)) \<and>
      nodeField g CANVAS_COHERENCE_NOISE ''width'' = Some (JNum (Finite 1024)) \<and>
      nodeField g CANVAS_COHERENCE_NOISE ''height'' = Some (JNum (Finite 1536)))"
proof -
  have h1: "model (generation exampleState) = Some (MainModelParam ''sd_xl_base_1.0'' ''sdxl'')"
    by (simp add: exampleState_def)
  have h2: "helpersKeepNodes exampleHelpers exampleState
     [INPAINT_IMAGE_RESIZE_UP, MASK_RESIZE_UP, INPAINT_IMAGE_RESIZE_DOWN,
      MASK_RESIZE_DOWN, NOISE, CANVAS_COHERENCE_NOISE, INPAINT_IMAGE, MASK_BLUR,
      INPAINT_CREATE_MASK]"
    by (rule example_keeps_nodes) simp
  have s: "boundingBoxScaleMethod (canvas exampleState) = ''auto''"
    and w: "width (scaledBoundingBoxDimensions (canvas exampleState)) = Finite 1024"
    and h: "height (scaledBoundingBoxDimensions (canvas exampleState)) = Finite 1536"
    by (simp_all add: exampleState_def)
  show ?thesis
    using h1 h2 C7_scaled_dimensions
      [OF h1 h2, of exactRounding exampleInitImage exampleMaskImage]
    unfolding s w h by simp
qed

text \<open>
  C8. If \<^verbatim>\<open>shouldRandomizeSeed\<close> is true, the graph has a \<^verbatim>\<open>rand_int\<close> node
  \<^verbatim>\<open>RANDOM_INT\<close> and an edge from its \<^verbatim>\<open>value\<close> output to the \<^verbatim>\<open>start\<close> input of
  \<^verbatim>\<open>RANGE_OF_SIZE\<close>, whose \<^verbatim>\<open>start\<close> field is unset; if it is false, there is no
  \<^verbatim>\<open>RANDOM_INT\<close> node and \<^verbatim>\<open>RANGE_OF_SIZE.start\<close> is the seed of the state. In both
  cases \<^verbatim>\<open>RANGE_OF_SIZE\<close> has \<^verbatim>\<open>size\<close> equal to \<^verbatim>\<open>iterations\<close> and \<^verbatim>\<open>step\<close> equal
  to 1. Asked of the helpers: they leave these two nodes and this edge as they are.
\<close>

theorem C8_seed:
  assumes "model (generation state) = Some m"
    and "helpersKeepNodes H state [RANDOM_INT, RANGE_OF_SIZE]"
    and "helpersKeepEdges H state [mkEdge RANDOM_INT ''value'' RANGE_OF_SIZE ''start'']"
  shows "\<exists>g. buildCanvasSDXLInpaintGraph rnd H state i k = Inr g \<and>
     (shouldRandomizeSeed (generation state) \<longrightarrow>
        nodeField g RANDOM_INT ''type'' = Some (JStr ''rand_int'') \<and>
        hasEdge g RANDOM_INT ''value'' RANGE_OF_SIZE ''start'' \<and>
        nodeField g RANGE_OF_SIZE ''start'' = None) \<and>
     (\<not> shouldRandomizeSeed (generation state) \<longrightarrow>
        nodes g RANDOM_INT = None \<and>
        nodeField g RANGE_OF_SIZE ''start'' = Some (JNum (seed (generation state)))) \<and>
     nodeField g RANGE_OF_SIZE ''size'' = Some (JNum (iterations (generation state))) \<and>
     nodeField g RANGE_OF_SIZE ''step'' = Some (JNum (Finite 1))"
proof -
  let ?c = "projr (canvasGraph rnd H state i k m)"
  let ?g = "addOptionalStages H state i ?c"
  note kn = stages_keep_node [OF assms(2)]
  note ke = stages_keep_edge [OF assms(3)]
  have b: "buildCanvasSDXLInpaintGraph rnd H state i k = Inr ?g"
    by (rule build_returns [OF assms(1)])
  have 1: "shouldRandomizeSeed (generation state) \<longrightarrow>
        nodeField ?g RANDOM_INT ''type'' = Some (JStr ''rand_int'') \<and>
        hasEdge ?g RANDOM_INT ''value'' RANGE_OF_SIZE ''start'' \<and>
        nodeField ?g RANGE_OF_SIZE ''start'' = None"
    by (simp add: nodeField_def hasEdge_def kn ke cg_random_int cg_range_of_size cg_edges)
  have 2: "\<not> shouldRandomizeSeed (generation state) \<longrightarrow>
        nodes ?g RANDOM_INT = None \<and>
        nodeField ?g RANGE_OF_SIZE ''start'' = Some (JNum (seed (generation state)))"
    by (simp add: nodeField_def kn cg_random_int cg_range_of_size)
  have 3: "nodeField ?g RANGE_OF_SIZE ''size'' = Some (JNum (iterations (generation state)))"
    and 4: "nodeField ?g RANGE_OF_SIZE ''step'' = Some (JNum (Finite 1))"
    by (simp_all add: nodeField_def kn cg_range_of_size)
  from b 1 2 3 4 show ?thesis by blast
qed

theorem C8_seed_witness:
  "model (generation exampleState) = Some (MainModelParam ''sd_xl_base_1.0'' ''sdxl'') \<and>
   helpersKeepNodes exampleHelpers exampleState [RANDOM_INT, RANGE_OF_SIZE] \<and>
   helpersKeepEdges exampleHelpers exampleState
     [mkEdge RANDOM_INT ''value'' RANGE_OF_SIZE ''start''] \<and>
   \<not> shouldRandomizeSeed (generation exampleState) \<and>
   (\<exists>g. buildCanvasSDXLInpaintGraph exactRounding exampleHelpers exampleState
          exampleInitImage exampleMaskImage = Inr g \<and>
      nodes g RANDOM_INT = None \<and>
      nodeField g RANGE_OF_SIZE ''start'' = Some (JNum (Finite 42)) \<and>
      nodeField g RANGE_OF_SIZE ''size'' = Some (JNum (Finite 2)) \<and>
      nodeField g RANGE_OF_SIZE ''step'' = Some (JNum (Finite 1)))"
proof -
  have h1: "model (generation exampleState) = Some (MainModelParam ''sd_xl_base_1.0'' ''sdxl'')"
    by (simp add: exampleState_def)
  have h2: "helpersKeepNodes exampleHelpers exampleState [RANDOM_INT, RANGE_OF_SIZE]"
    by (rule example_keeps_nodes) simp
  have h3: "helpersKeepEdges exampleHelpers exampleState
     [mkEdge RANDOM_INT ''value'' RANGE_OF_SIZE ''start'']"
    by (rule example_keeps_edges) (simp add: mkEdge_def)
  have r: "shouldRandomizeSeed (generation exampleState) = False"
    and s: "seed (generation exampleState) = Finite 42"
    and n: "iterations (generation exampleState) = Finite 2"
    by (simp_all add: exampleState_def)
  show ?thesis
    using h1 h2 h3 C8_seed [OF h1 h2 h3, of exactRounding exampleInitImage exampleMaskImage]
    unfolding r s n by simp
qed

text \<open>
  C9. The \<^verbatim>\<open>use_cpu\<close> field of both the \<^verbatim>\<open>NOISE\<close> node and the
  \<^verbatim>\<open>CANVAS_COHERENCE_NOISE\<close> node equals \<^verbatim>\<open>shouldUseCpuNoise\<close>, whatever the value of
  \<^verbatim>\<open>shouldUseNoiseSettings\<close>: the two branches of the conditional that computes it are
  the same expression. Asked of the helpers: they leave the two noise nodes as they are.
\<close>

theorem C9_use_cpu:
  assumes "model (generation state) = Some m"
    and "helpersKeepNodes H state [NOISE, CANVAS_COHERENCE_NOISE]"
  shows "\<exists>g. buildCanvasSDXLInpaintGraph rnd H state i k = Inr g \<and>
     nodeField g NOISE ''use_cpu'' = Some (JBool (shouldUseCpuNoise (generation state))) \<and>
     nodeField g CANVAS_COHERENCE_NOISE ''use_cpu''
       = Some (JBool (shouldUseCpuNoise (generation state)))"
proof -
  let ?c = "projr (canvasGraph rnd H state i k m)"
  let ?g = "addOptionalStages H state i ?c"
  note kn = stages_keep_node [OF assms(2)]
  have u: "use_cpu state = shouldUseCpuNoise (generation state)"
    by (simp add: use_cpu_def)
  have b: "buildCanvasSDXLInpaintGraph rnd H state i k = Inr ?g"
    by (rule build_returns [OF assms(1)])
  have 1: "nodeField ?g NOISE ''use_cpu''
             = Some (JBool (shouldUseCpuNoise (generation state)))"
    by (simp add: nodeField_def kn cg_noise u)
  have 2: "nodeField ?g CANVAS_COHERENCE_NOISE ''use_cpu''
             = Some (JBool (shouldUseCpuNoise (generation state)))"
    by (simp add: nodeField_def kn cg_coherence_noise u)
  from b 1 2 show ?thesis by blast
qed

theorem C9_use_cpu_witness:
  "model (generation exampleState) = Some (MainModelParam ''sd_xl_base_1.0'' ''sdxl'') \<and>
   helpersKeepNodes exampleHelpers exampleState [NOISE, CANVAS_COHERENCE_NOISE] \<and>
   (\<exists>g. buildCanvasSDXLInpaintGraph exactRounding exampleHelpers exampleState
          exampleInitImage exampleMaskImage = Inr g \<and>
      nodeField g NOISE ''use_cpu'' = Some (JBool True) \<and>
      nodeField g CANVAS_COHERENCE_NOISE ''use_cpu'' = Some (JBool True))"
proof -
  have h1: "model (generation exampleState) = Some (MainModelParam ''sd_xl_base_1.0'' ''sdxl'')"
    by (simp add: exampleState_def)
  have h2: "helpersKeepNodes exampleHelpers exampleState [NOISE, CANVAS_COHERENCE_NOISE]"
    by (rule example_keeps_nodes) simp
  have u: "shouldUseCpuNoise (generation exampleState) = True"
    by (simp add: exampleState_def)
  show ?thesis
    using h1 h2 C9_use_cpu [OF h1 h2, of exactRounding exampleInitImage exampleMaskImage]
    unfolding u by simp
qed

text \<open>
  C10. On the \<^verbatim>\<open>SDXL_DENOISE_LATENTS\<close> node: with the refiner on, \<^verbatim>\<open>denoising_start\<close>
  is \<^verbatim>\<open>Math.min(refinerStart, 1 - sdxlImg2ImgDenoisingStrength)\<close> and \<^verbatim>\<open>denoising_end\<close>
  is \<^verbatim>\<open>refinerStart\<close>; with the refiner off, they are
  \<^verbatim>\<open>1 - sdxlImg2ImgDenoisingStrength\<close> and \<open>1\<close>. The claim goes on: when the strength
  lies in \<open>[0, 1]\<close>, \<^verbatim>\<open>denoising_start <= denoising_end\<close>. That fails when the refiner is
  on and \<^verbatim>\<open>refinerStart\<close> is \<^verbatim>\<open>NaN\<close>: both fields are \<^verbatim>\<open>NaN\<close> then, and
  \<^verbatim>\<open>NaN <= NaN\<close> is false.
\<close>

theorem C10_nan_counterexample:
  "buildCanvasSDXLInpaintGraph exactRounding exampleHelpers nanState
            exampleInitImage exampleMaskImage
     = Inr (projr (buildCanvasSDXLInpaintGraph exactRounding exampleHelpers nanState
            exampleInitImage exampleMaskImage)) \<and>
   nodeField (projr (buildCanvasSDXLInpaintGraph exactRounding exampleHelpers nanState
            exampleInitImage exampleMaskImage))
     SDXL_DENOISE_LATENTS ''denoising_start'' = Some (JNum NaN) \<and>
   nodeField (projr (buildCanvasSDXLInpaintGraph exactRounding exampleHelpers nanState
            exampleInitImage exampleMaskImage))
     SDXL_DENOISE_LATENTS ''denoising_end'' = Some (JNum NaN) \<and>
   shouldUseSDXLRefiner (sdxl nanState) \<and>
   refinerStart (sdxl nanState) = NaN \<and>
   jsLe (Finite 0) (sdxlImg2ImgDenoisingStrength (sdxl nanState)) \<and>
   jsLe (sdxlImg2ImgDenoisingStrength (sdxl nanState)) (Finite 1) \<and>
   \<not> jsLe NaN NaN"
proof -
  let ?m = "MainModelParam ''sd_xl_base_1.0'' ''sdxl''"
  let ?c = "projr (canvasGraph exactRounding exampleHelpers nanState
                     exampleInitImage exampleMaskImage ?m)"
  let ?g = "addOptionalStages exampleHelpers nanState exampleInitImage ?c"
  have m: "model (generation nanState) = Some ?m"
    by (simp add: nanState_def exampleState_def)
  have b: "buildCanvasSDXLInpaintGraph exactRounding exampleHelpers nanState
            exampleInitImage exampleMaskImage = Inr ?g"
    by (rule build_returns [OF m])
  have k: "helpersKeepNodes exampleHelpers nanState [SDXL_DENOISE_LATENTS]"
    by (rule example_keeps_nodes) simp
  have n: "nodes ?g SDXL_DENOISE_LATENTS =
             initialNodes exactRounding exampleHelpers nanState exampleInitImage ?m
               SDXL_DENOISE_LATENTS"
    by (simp add: stages_keep_node [OF k] cg_untouched)
  have r: "shouldUseSDXLRefiner (sdxl nanState)" and f: "refinerStart (sdxl nanState) = NaN"
    and t: "sdxlImg2ImgDenoisingStrength (sdxl nanState) = Finite (3 / 4)"
    by (simp_all add: nanState_def exampleState_def)
  have s: "nodeField ?g SDXL_DENOISE_LATENTS ''denoising_start'' = Some (JNum NaN)"
    by (simp add: nodeField_def n initialNodes_denoise r f jsMin_def)
  have e: "nodeField ?g SDXL_DENOISE_LATENTS ''denoising_end'' = Some (JNum NaN)"
    by (simp add: nodeField_def n initialNodes_denoise r f)
  show ?thesis
    unfolding b using s e r f by (simp add: t)
qed

text \<open>
  C10, amended. The two fields are as the claim says in both cases. When the strength lies
  in \<open>[0, 1]\<close> and, with the refiner on, \<^verbatim>\<open>refinerStart\<close> is not \<^verbatim>\<open>NaN\<close>, then
  \<^verbatim>\<open>denoising_start <= denoising_end\<close>: for every rounding of the subtraction that is
  monotone and leaves \<open>1\<close> as it is. Asked of the helpers: they leave this node as it is.
\<close>

theorem C10_denoising_window:
  assumes "model (generation state) = Some m"
    and "helpersKeepNodes H state [SDXL_DENOISE_LATENTS]"
  shows "\<exists>g s e. buildCanvasSDXLInpaintGraph rnd H state i k = Inr g \<and>
     nodeField g SDXL_DENOISE_LATENTS ''denoising_start'' = Some (JNum s) \<and>
     nodeField g SDXL_DENOISE_LATENTS ''denoising_end'' = Some (JNum e) \<and>
     (shouldUseSDXLRefiner (sdxl state) \<longrightarrow>
        s = jsMin (refinerStart (sdxl state))
              (jsSub rnd (Finite 1) (sdxlImg2ImgDenoisingStrength (sdxl state))) \<and>
        e = refinerStart (sdxl state)) \<and>
     (\<not> shouldUseSDXLRefiner (sdxl state) \<longrightarrow>
        s = jsSub rnd (Finite 1) (sdxlImg2ImgDenoisingStrength (sdxl state)) \<and>
        e = Finite 1) \<and>
     (roundingMonotone rnd \<and>
      jsLe (Finite 0) (sdxlImg2ImgDenoisingStrength (sdxl state)) \<and>
      jsLe (sdxlImg2ImgDenoisingStrength (sdxl state)) (Finite 1) \<and>
      (shouldUseSDXLRefiner (sdxl state) \<longrightarrow> refinerStart (sdxl state) \<noteq> NaN)
        \<longrightarrow> jsLe s e)"
proof -
  let ?c = "projr (canvasGraph rnd H state i k m)"
  let ?g = "addOptionalStages H state i ?c"
  let ?strength = "sdxlImg2ImgDenoisingStrength (sdxl state)"
  let ?y = "jsSub rnd (Finite 1) ?strength"
  let ?s = "if shouldUseSDXLRefiner (sdxl state)
            then jsMin (refinerStart (sdxl state)) ?y else ?y"
  let ?e = "if shouldUseSDXLRefiner (sdxl state) then refinerStart (sdxl state) else Finite 1"
  have n: "nodes ?g SDXL_DENOISE_LATENTS = initialNodes rnd H state i m SDXL_DENOISE_LATENTS"
    by (simp add: stages_keep_node [OF assms(2)] cg_untouched)
  have b: "buildCanvasSDXLInpaintGraph rnd H state i k = Inr ?g"
    by (rule build_returns [OF assms(1)])
  have 1: "nodeField ?g SDXL_DENOISE_LATENTS ''denoising_start'' = Some (JNum ?s)"
    by (simp add: nodeField_def n initialNodes_denoise)
  have 2: "nodeField ?g SDXL_DENOISE_LATENTS ''denoising_end'' = Some (JNum ?e)"
    by (simp add: nodeField_def n initialNodes_denoise)
  have 3: "shouldUseSDXLRefiner (sdxl state) \<longrightarrow>
        ?s = jsMin (refinerStart (sdxl state)) ?y \<and> ?e = refinerStart (sdxl state)"
    by simp
  have 4: "\<not> shouldUseSDXLRefiner (sdxl state) \<longrightarrow> ?s = ?y \<and> ?e = Finite 1"
    by simp
  have 5: "jsLe ?s ?e"
    if h: "roundingMonotone rnd \<and> jsLe (Finite 0) ?strength \<and> jsLe ?strength (Finite 1) \<and>
           (shouldUseSDXLRefiner (sdxl state) \<longrightarrow> refinerStart (sdxl state) \<noteq> NaN)"
  proof -
    from h obtain t where t: "?strength = Finite t" and "0 \<le> t"
      by (cases ?strength) simp_all
    from h have mono: "\<And>x y. x \<le> y \<Longrightarrow> jsLe (rnd x) (rnd y)" and one: "rnd 1 = Finite 1"
      by (simp_all add: roundingMonotone_def)
    from \<open>0 \<le> t\<close> have "jsLe (rnd (1 - t)) (rnd 1)" by (intro mono) simp
    then have y: "jsLe ?y (Finite 1)" by (simp add: t one)
    show ?thesis
    proof (cases "shouldUseSDXLRefiner (sdxl state)")
      case False
      with y show ?thesis by simp
    next
      case True
      with h have "refinerStart (sdxl state) \<noteq> NaN" by simp
      moreover from y have "?y \<noteq> NaN" by (cases ?y) simp_all
      ultimately have "jsLe (jsMin (refinerStart (sdxl state)) ?y) (refinerStart (sdxl state))"
        by (rule jsMin_le_left)
      with True show ?thesis by simp
    qed
  qed
  from b 1 2 3 4 5 show ?thesis by blast
qed

theorem C10_denoising_window_witness:
  "model (generation exampleState) = Some (MainModelParam ''sd_xl_base_1.0'' ''sdxl'') \<and>
   helpersKeepNodes exampleHelpers exampleState [SDXL_DENOISE_LATENTS] \<and>
   roundingMonotone exactRounding \<and>
   shouldUseSDXLRefiner (sdxl exampleState) \<and>
   refinerStart (sdxl exampleState) \<noteq> NaN \<and>
   jsLe (Finite 0) (sdxlImg2ImgDenoisingStrength (sdxl exampleState)) \<and>
   jsLe (sdxlImg2ImgDenoisingStrength (sdxl exampleState)) (Finite 1) \<and>
   (\<exists>g. buildCanvasSDXLInpaintGraph exactRounding exampleHelpers exampleState
          exampleInitImage exampleMaskImage = Inr g \<and>
      nodeField g SDXL_DENOISE_LATENTS ''denoising_start'' = Some (JNum (Finite (1 / 4))) \<and>
      nodeField g SDXL_DENOISE_LATENTS ''denoising_end'' = Some (JNum (Finite (1 / 2))) \<and>
      jsLe (Finite (1 / 4)) (Finite (1 / 2)))"
proof -
  have h1: "model (generation exampleState) = Some (MainModelParam ''sd_xl_base_1.0'' ''sdxl'')"
    by (simp add: exampleState_def)
  have h2: "helpersKeepNodes exampleHelpers exampleState [SDXL_DENOISE_LATENTS]"
    by (rule example_keeps_nodes) simp
  have h3: "roundingMonotone exactRounding"
    by (simp add: roundingMonotone_def exactRounding_def)
  have r: "shouldUseSDXLRefiner (sdxl exampleState) = True"
    and t: "sdxlImg2ImgDenoisingStrength (sdxl exampleState) = Finite (3 / 4)"
    and f: "refinerStart (sdxl exampleState) = Finite (1 / 2)"
    by (simp_all add: exampleState_def)
  show ?thesis
    using h1 h2 h3
      C10_denoising_window [OF h1 h2, of exactRounding exampleInitImage exampleMaskImage]
    unfolding r t f by (auto simp add: jsMin_def exactRounding_def)
qed

end
